theory Spec2Isabelle
  imports Main
begin

section \<open>The outside world: requests, responses, events\<close>

text \<open>
  The installer talks to an iDRAC controller over HTTPS, runs external processes and looks
  at the file system. None of that is code of the repository, so it enters the model as an
  environment: a record of oracle functions over an arbitrary world type. Every call of an
  oracle is appended to a trace together with what it returned, so that statements such as
  "no reset command was issued" are statements about the trace. Every call of
  \<open>makeRequest\<close> leaves one \<open>Http\<close> event that holds the request and what the call
  returned, also when the request could not be built and nothing reached the network.
\<close>

datatype level = Info | Warn | Error | Success | Debug

datatype verb = GET | POST | PATCH

text \<open>The request bodies the client marshals: \<open>SystemBoot\<close>, \<open>ResetRequest\<close>,
  \<open>VirtualMediaRequest\<close>, the empty JSON object, or no body.\<close>

datatype payload =
    NoBody
  | EmptyObject
  | SystemBoot string string
  | ResetRequest string
  | VirtualMediaRequest string

datatype request = Request verb string payload

text \<open>A response is its status code and its body; \<open>None\<close> is a body that \<open>io.ReadAll\<close>
  fails to read.\<close>

datatype response = Response nat "string option"

datatype error =
    Transport
  | BadURL
  | ReadErr
  | JsonErr
  | OSErr
  | ExitErr
  | Cancelled
  | Msg string
  | StatusCode string nat
  | Errorf string "string list"
  | Wrapped string error
  | Panic string

datatype event =
    Log level string
  | Http request "error + response"
  | Slept nat
  | Stat string bool
  | Exec "string list" bool
  | RemoveAll string bool
  | MkdirAll string bool
  | Chmod string bool
  | Setenv string string bool

record SystemInfo =
  Manufacturer :: string
  Model :: string
  SerialNumber :: string
  BiosVersion :: string
  PowerState :: string
  Health :: string

record VirtualMediaInfo =
  ConnectedVia :: string
  Image :: string
  ImageName :: string
  Inserted :: bool
  MediaTypes :: "string list"

text \<open>
  \<open>http_do\<close> is \<open>http.Client.Do\<close> (\<open>None\<close>: it returned an error),
  \<open>url_ok\<close> says whether \<open>http.NewRequestWithContext\<close> accepts the URL,
  \<open>sleep\<close> is \<open>time.Sleep\<close> in seconds, \<open>ctx_done\<close> the non-blocking read of
  \<open>ctx.Done()\<close>, \<open>stat_missing\<close> is \<open>os.IsNotExist\<close> of \<open>os.Stat\<close>,
  \<open>exec\<close> is \<open>CombinedOutput\<close> of a command line (its output and whether it
  exited with success), \<open>remove_all\<close>, \<open>mkdir_all\<close>, \<open>chmod\<close> and \<open>setenv\<close> are the
  \<open>os\<close> calls of those names (whether they returned no error); the two \<open>unmarshal\<close> functions are \<open>json.Unmarshal\<close>
  into the two structs and \<open>path_join\<close>, \<open>path_base\<close> are \<open>filepath.Join\<close> and
  \<open>filepath.Base\<close>.
\<close>

record 'w env =
  http_do :: "request \<Rightarrow> 'w \<Rightarrow> response option \<times> 'w"
  url_ok :: "string \<Rightarrow> bool"
  sleep :: "nat \<Rightarrow> 'w \<Rightarrow> 'w"
  ctx_done :: "'w \<Rightarrow> bool"
  stat_missing :: "string \<Rightarrow> 'w \<Rightarrow> bool"
  exec :: "string list \<Rightarrow> 'w \<Rightarrow> (string \<times> bool) \<times> 'w"
  remove_all :: "string \<Rightarrow> 'w \<Rightarrow> bool \<times> 'w"
  mkdir_all :: "string \<Rightarrow> 'w \<Rightarrow> bool \<times> 'w"
  chmod :: "string \<Rightarrow> 'w \<Rightarrow> bool \<times> 'w"
  setenv :: "string \<Rightarrow> string \<Rightarrow> 'w \<Rightarrow> bool \<times> 'w"
  unmarshal_system :: "string \<Rightarrow> SystemInfo option"
  unmarshal_media :: "string \<Rightarrow> VirtualMediaInfo option"
  path_join :: "string list \<Rightarrow> string"
  path_base :: "string \<Rightarrow> string"

record 'w state =
  world :: 'w
  trace :: "event list"

definition emit :: "event \<Rightarrow> 'w state \<Rightarrow> 'w state" where
  "emit e st = st\<lparr>trace := trace st @ [e]\<rparr>"

definition logf :: "level \<Rightarrow> string \<Rightarrow> 'w state \<Rightarrow> 'w state" where
  "logf l m st = emit (Log l m) st"

definition do_sleep :: "'w env \<Rightarrow> nat \<Rightarrow> 'w state \<Rightarrow> 'w state" where
  "do_sleep E n st = emit (Slept n) (st\<lparr>world := sleep E n (world st)\<rparr>)"

definition do_stat :: "'w env \<Rightarrow> string \<Rightarrow> 'w state \<Rightarrow> bool \<times> 'w state" where
  "do_stat E p st = (let b = stat_missing E p (world st) in (b, emit (Stat p b) st))"

definition do_remove_all :: "'w env \<Rightarrow> string \<Rightarrow> 'w state \<Rightarrow> bool \<times> 'w state" where
  "do_remove_all E p st =
     (case remove_all E p (world st) of (ok, w) \<Rightarrow> (ok, emit (RemoveAll p ok) (st\<lparr>world := w\<rparr>)))"

definition do_mkdir_all :: "'w env \<Rightarrow> string \<Rightarrow> 'w state \<Rightarrow> bool \<times> 'w state" where
  "do_mkdir_all E p st =
     (case mkdir_all E p (world st) of (ok, w) \<Rightarrow> (ok, emit (MkdirAll p ok) (st\<lparr>world := w\<rparr>)))"

definition do_chmod :: "'w env \<Rightarrow> string \<Rightarrow> 'w state \<Rightarrow> bool \<times> 'w state" where
  "do_chmod E p st =
     (case chmod E p (world st) of (ok, w) \<Rightarrow> (ok, emit (Chmod p ok) (st\<lparr>world := w\<rparr>)))"

definition do_setenv :: "'w env \<Rightarrow> string \<Rightarrow> string \<Rightarrow> 'w state \<Rightarrow> bool \<times> 'w state" where
  "do_setenv E k v st =
     (case setenv E k v (world st) of
        (ok, w) \<Rightarrow> (ok, emit (Setenv k v ok) (st\<lparr>world := w\<rparr>)))"

definition do_exec :: "'w env \<Rightarrow> string list \<Rightarrow> 'w state \<Rightarrow> (string \<times> bool) \<times> 'w state" where
  "do_exec E args st =
     (case exec E args (world st) of
        ((out, ok), w) \<Rightarrow> ((out, ok), emit (Exec args ok) (st\<lparr>world := w\<rparr>)))"

section \<open>Configuration (package config)\<close>

record IDRACConfig =
  IP :: string
  Username :: string
  Password :: string
  VerifySSL :: bool
  Timeout :: int

record Config =
  IDRAC :: IDRACConfig
  Version :: string
  ClusterName :: string
  RegistryAuthFile :: string
  RemoteUser :: string
  RemoteHost :: string
  RemotePath :: string
  ISOURL :: string
  WorkDir :: string
  SourceDir :: string
  SSHKeyPath :: string
  InstallerPath :: string

definition GetISOFilePath :: "'w env \<Rightarrow> Config \<Rightarrow> string" where
  "GetISOFilePath E c = path_join E [WorkDir c, ''agent.x86_64.iso'']"

text \<open>\<open>c.Paths.SSHKeyPath[:len(c.Paths.SSHKeyPath)-4]\<close> panics on a path shorter than
  four bytes.\<close>

definition GetSSHKeyPrivatePath :: "Config \<Rightarrow> string option" where
  "GetSSHKeyPrivatePath c =
     (if length (SSHKeyPath c) < 4 then None
      else Some (take (length (SSHKeyPath c) - 4) (SSHKeyPath c)))"

section \<open>The iDRAC client (package idrac)\<close>

record Client =
  config :: IDRACConfig
  baseURL :: string

definition NewClient :: "IDRACConfig \<Rightarrow> Client" where
  "NewClient cfg = \<lparr>config = cfg, baseURL = ''https://'' @ IP cfg\<rparr>"

definition system_endpoint :: string where
  "system_endpoint = ''/redfish/v1/Systems/System.Embedded.1''"

definition reset_endpoint :: string where
  "reset_endpoint = ''/redfish/v1/Systems/System.Embedded.1/Actions/ComputerSystem.Reset''"

definition media_endpoint :: string where
  "media_endpoint = ''/redfish/v1/Managers/iDRAC.Embedded.1/VirtualMedia/CD''"

definition eject_endpoint :: string where
  "eject_endpoint =
     ''/redfish/v1/Managers/iDRAC.Embedded.1/VirtualMedia/CD/Actions/VirtualMedia.EjectMedia''"

definition insert_endpoint :: string where
  "insert_endpoint =
     ''/redfish/v1/Managers/iDRAC.Embedded.1/VirtualMedia/CD/Actions/VirtualMedia.InsertMedia''"

definition makeRequest ::
  "'w env \<Rightarrow> Client \<Rightarrow> verb \<Rightarrow> string \<Rightarrow> payload \<Rightarrow> 'w state \<Rightarrow> (error + response) \<times> 'w state"
where
  "makeRequest E c m endpoint body st =
     (let url = baseURL c @ endpoint in
      if \<not> url_ok E url
      then (Inl (Wrapped ''failed to create request'' BadURL),
            emit (Http (Request m url body) (Inl (Wrapped ''failed to create request'' BadURL))) st)
      else
        let st1 = logf Debug ''Making %s request to %s'' st;
            st2 = (if body \<noteq> NoBody then logf Debug ''Request body: %+v'' st1 else st1);
            req = Request m url body
        in case http_do E req (world st2) of
             (None, w) \<Rightarrow>
               (Inl (Wrapped ''failed to make request'' Transport),
                emit (Http req (Inl (Wrapped ''failed to make request'' Transport)))
                  (st2\<lparr>world := w\<rparr>))
           | (Some resp, w) \<Rightarrow> (Inr resp, emit (Http req (Inr resp)) (st2\<lparr>world := w\<rparr>)))"

definition GetSystemInfo :: "'w env \<Rightarrow> Client \<Rightarrow> 'w state \<Rightarrow> (error + SystemInfo) \<times> 'w state" where
  "GetSystemInfo E c st =
     (case makeRequest E c GET system_endpoint NoBody (logf Info ''Getting system information...'' st) of
        (Inl e, st1) \<Rightarrow> (Inl e, logf Error ''Failed to get system information: %v'' st1)
      | (Inr (Response code body), st1) \<Rightarrow>
          if code \<noteq> 200 then (Inl (StatusCode ''failed to get system info, status code: %d'' code), st1)
          else (case body of
                  None \<Rightarrow> (Inl (Wrapped ''failed to read response body'' ReadErr), st1)
                | Some b \<Rightarrow>
                    (case unmarshal_system E b of
                       None \<Rightarrow> (Inl (Wrapped ''failed to unmarshal system info'' JsonErr), st1)
                     | Some si \<Rightarrow>
                         (Inr si,
                          logf Info ''  BIOS Version: %s''
                           (logf Info ''  Serial Number: %s''
                             (logf Info ''  Model: %s''
                               (logf Info ''  Manufacturer: %s''
                                 (logf Info ''System Information:'' st1))))))))"

definition GetSystemPowerState :: "'w env \<Rightarrow> Client \<Rightarrow> 'w state \<Rightarrow> (error + string) \<times> 'w state" where
  "GetSystemPowerState E c st =
     (case GetSystemInfo E c (logf Info ''Getting system power state...'' st) of
        (Inl e, st1) \<Rightarrow> (Inl e, st1)
      | (Inr si, st1) \<Rightarrow> (Inr (PowerState si), logf Info ''System power state: %s'' st1))"

definition GetSystemHealth :: "'w env \<Rightarrow> Client \<Rightarrow> 'w state \<Rightarrow> (error + string) \<times> 'w state" where
  "GetSystemHealth E c st =
     (case GetSystemInfo E c (logf Info ''Getting system health status...'' st) of
        (Inl e, st1) \<Rightarrow> (Inl e, st1)
      | (Inr si, st1) \<Rightarrow> (Inr (Health si), logf Info ''System health: %s'' st1))"


text \<open>\<open>strings.Contains\<close>.\<close>

fun strings_Contains :: "string \<Rightarrow> string \<Rightarrow> bool" where
  "strings_Contains [] sub = (sub = [])"
| "strings_Contains (x # xs) sub =
     (take (length sub) (x # xs) = sub \<or> strings_Contains xs sub)"

definition CheckConnectivity :: "'w env \<Rightarrow> Client \<Rightarrow> 'w state \<Rightarrow> (error + unit) \<times> 'w state" where
  "CheckConnectivity E c st =
     (case makeRequest E c GET system_endpoint NoBody
             (logf Info ''Checking iDRAC connectivity to %s...'' st) of
        (Inl e, st1) \<Rightarrow> (Inl e, logf Error ''Failed to connect to iDRAC at %s: %v'' st1)
      | (Inr (Response code body), st1) \<Rightarrow>
          if code \<noteq> 200
          then (Inl (StatusCode ''iDRAC returned status code: %d'' code),
                logf Error ''iDRAC returned status code: %d'' st1)
          else (case body of
                  None \<Rightarrow> (Inl (Wrapped ''failed to read response body'' ReadErr), st1)
                | Some b \<Rightarrow>
                    if \<not> strings_Contains b ''System.Embedded.1''
                    then (Inl (Msg ''invalid response from iDRAC''),
                          logf Error ''Invalid response from iDRAC'' st1)
                    else (Inr (), logf Success ''iDRAC connectivity verified'' st1)))"

definition maxAttempts :: nat where
  "maxAttempts = 30"

text \<open>
  \<open>WaitForSystemPowerOn\<close> and \<open>WaitForSystemPowerOff\<close> are the same loop up to the
  state they wait for and their three messages, so the loop is written once:
  \<open>for attempt < maxAttempts\<close>, with the cancellation check, the query, the
  ten-second sleep and \<open>attempt++\<close>, and after the loop the error.
\<close>

function poll_loop ::
  "'w env \<Rightarrow> Client \<Rightarrow> string \<Rightarrow> string \<Rightarrow> string \<Rightarrow> string \<Rightarrow> nat \<Rightarrow> 'w state \<Rightarrow>
     (error + unit) \<times> 'w state"
where
  "poll_loop E c expected okmsg faillog failmsg attempt st =
     (if attempt < maxAttempts then
        if ctx_done E (world st) then (Inl Cancelled, st)
        else
          (case GetSystemPowerState E c st of
             (Inl e, st1) \<Rightarrow>
               poll_loop E c expected okmsg faillog failmsg (attempt + 1)
                 (do_sleep E 10
                   (logf Info ''System power state: %s, waiting... (attempt %d/%d)''
                     (logf Warn ''Failed to get power state: %v'' st1)))
           | (Inr powerState, st1) \<Rightarrow>
               if powerState = expected then (Inr (), logf Success okmsg st1)
               else
                 poll_loop E c expected okmsg faillog failmsg (attempt + 1)
                   (do_sleep E 10
                     (logf Info ''System power state: %s, waiting... (attempt %d/%d)'' st1)))
      else (Inl (Msg failmsg), logf Error faillog st))"
  by pat_completeness auto
termination
  by (relation "measure (\<lambda>(E, c, expected, okmsg, faillog, failmsg, attempt, st). maxAttempts - attempt)")
     auto

definition WaitForSystemPowerOn :: "'w env \<Rightarrow> Client \<Rightarrow> 'w state \<Rightarrow> (error + unit) \<times> 'w state" where
  "WaitForSystemPowerOn E c st =
     poll_loop E c ''On'' ''System is now powered on''
       ''System failed to power on within expected time''
       ''system failed to power on within expected time'' 0
       (logf Info ''Waiting for system to power on...'' st)"

definition WaitForSystemPowerOff :: "'w env \<Rightarrow> Client \<Rightarrow> 'w state \<Rightarrow> (error + unit) \<times> 'w state" where
  "WaitForSystemPowerOff E c st =
     poll_loop E c ''Off'' ''System is now powered off''
       ''System failed to power off within expected time''
       ''system failed to power off within expected time'' 0
       (logf Info ''Waiting for system to power off...'' st)"

definition PowerOnSystem :: "'w env \<Rightarrow> Client \<Rightarrow> 'w state \<Rightarrow> (error + unit) \<times> 'w state" where
  "PowerOnSystem E c st =
     (case GetSystemPowerState E c (logf Info ''Powering on system...'' st) of
        (Inl e, st1) \<Rightarrow> (Inl e, st1)
      | (Inr powerState, st1) \<Rightarrow>
          if powerState = ''On'' then (Inr (), logf Info ''System is already powered on'' st1)
          else
            (case makeRequest E c POST reset_endpoint (ResetRequest ''On'') st1 of
               (Inl e, st2) \<Rightarrow> (Inl e, logf Error ''Failed to power on system: %v'' st2)
             | (Inr (Response code body), st2) \<Rightarrow>
                 if code \<noteq> 200 \<and> code \<noteq> 202
                 then (Inl (StatusCode ''failed to power on system, status code: %d'' code), st2)
                 else WaitForSystemPowerOn E c
                        (logf Success ''System power on command sent successfully'' st2)))"

definition PowerOffSystem :: "'w env \<Rightarrow> Client \<Rightarrow> 'w state \<Rightarrow> (error + unit) \<times> 'w state" where
  "PowerOffSystem E c st =
     (case GetSystemPowerState E c (logf Info ''Powering off system...'' st) of
        (Inl e, st1) \<Rightarrow> (Inl e, st1)
      | (Inr powerState, st1) \<Rightarrow>
          if powerState = ''Off'' then (Inr (), logf Info ''System is already powered off'' st1)
          else
            (case makeRequest E c POST reset_endpoint (ResetRequest ''ForceOff'') st1 of
               (Inl e, st2) \<Rightarrow> (Inl e, logf Error ''Failed to power off system: %v'' st2)
             | (Inr (Response code body), st2) \<Rightarrow>
                 if code \<noteq> 200 \<and> code \<noteq> 202
                 then (Inl (StatusCode ''failed to power off system, status code: %d'' code), st2)
                 else WaitForSystemPowerOff E c
                        (logf Success ''System power off command sent successfully'' st2)))"

definition RestartSystem :: "'w env \<Rightarrow> Client \<Rightarrow> 'w state \<Rightarrow> (error + unit) \<times> 'w state" where
  "RestartSystem E c st =
     (case makeRequest E c POST reset_endpoint (ResetRequest ''ForceRestart'')
             (logf Info ''Restarting system...'' st) of
        (Inl e, st1) \<Rightarrow> (Inl e, logf Error ''Failed to restart system: %v'' st1)
      | (Inr (Response code body), st1) \<Rightarrow>
          if code \<noteq> 200 \<and> code \<noteq> 202
          then (Inl (StatusCode ''failed to restart system, status code: %d'' code), st1)
          else (Inr (), logf Success ''System restart command sent successfully'' st1))"

definition SetHDDBoot :: "'w env \<Rightarrow> Client \<Rightarrow> 'w state \<Rightarrow> (error + unit) \<times> 'w state" where
  "SetHDDBoot E c st =
     (case makeRequest E c PATCH system_endpoint (SystemBoot ''Hdd'' ''Once'')
             (logf Info ''Setting boot device to HDD...'' st) of
        (Inl e, st1) \<Rightarrow> (Inl e, logf Error ''Failed to set boot device to HDD: %v'' st1)
      | (Inr (Response code body), st1) \<Rightarrow>
          if code \<noteq> 200
          then (Inl (StatusCode ''failed to set boot device to HDD, status code: %d'' code), st1)
          else (Inr (), logf Success ''Boot device set to HDD successfully'' st1))"

definition EjectVirtualMedia :: "'w env \<Rightarrow> Client \<Rightarrow> 'w state \<Rightarrow> (error + unit) \<times> 'w state" where
  "EjectVirtualMedia E c st =
     (case makeRequest E c POST eject_endpoint EmptyObject
             (logf Info ''Ejecting virtual media...'' st) of
        (Inl e, st1) \<Rightarrow> (Inl e, logf Error ''Failed to eject virtual media: %v'' st1)
      | (Inr (Response code body), st1) \<Rightarrow>
          if code \<noteq> 200 \<and> code \<noteq> 202
          then (Inl (StatusCode ''failed to eject virtual media, status code: %d'' code), st1)
          else (Inr (), do_sleep E 5 (logf Success ''Virtual media ejected successfully'' st1)))"

definition InsertVirtualMedia ::
  "'w env \<Rightarrow> Client \<Rightarrow> string \<Rightarrow> 'w state \<Rightarrow> (error + unit) \<times> 'w state"
where
  "InsertVirtualMedia E c isoURL st =
     (case makeRequest E c POST insert_endpoint (VirtualMediaRequest isoURL)
             (logf Info ''Inserting ISO image: %s'' st) of
        (Inl e, st1) \<Rightarrow> (Inl e, logf Error ''Failed to insert virtual media: %v'' st1)
      | (Inr (Response code body), st1) \<Rightarrow>
          if code \<noteq> 200 \<and> code \<noteq> 202
          then (Inl (StatusCode ''failed to insert virtual media, status code: %d'' code), st1)
          else (Inr (), do_sleep E 5 (logf Success ''Virtual media inserted successfully'' st1)))"

subsection \<open>The enhanced client\<close>

definition GetVirtualMediaInfo ::
  "'w env \<Rightarrow> Client \<Rightarrow> 'w state \<Rightarrow> (error + VirtualMediaInfo) \<times> 'w state"
where
  "GetVirtualMediaInfo E c st =
     (case makeRequest E c GET media_endpoint NoBody
             (logf Info ''Getting virtual media information...'' st) of
        (Inl e, st1) \<Rightarrow> (Inl e, logf Error ''Failed to get virtual media info: %v'' st1)
      | (Inr (Response code body), st1) \<Rightarrow>
          if code \<noteq> 200
          then (Inl (StatusCode ''failed to get virtual media info, status code: %d'' code), st1)
          else (case body of
                  None \<Rightarrow> (Inl (Wrapped ''failed to read response body'' ReadErr), st1)
                | Some b \<Rightarrow>
                    (case unmarshal_media E b of
                       None \<Rightarrow> (Inl (Wrapped ''failed to unmarshal virtual media info'' JsonErr), st1)
                     | Some mi \<Rightarrow>
                         (Inr mi,
                          logf Info ''  Media Types: %v''
                           (logf Info ''  Inserted: %t''
                             (logf Info ''  Image Name: %s''
                               (logf Info ''  Image: %s''
                                 (logf Info ''  Connected Via: %s''
                                   (logf Info ''Virtual Media Information:'' st1)))))))))"

definition virtualCDOptions :: "string list" where
  "virtualCDOptions = [''RemoteCd'', ''VirtualCd'', ''Cd'']"

text \<open>The \<open>for _, bootTarget := range virtualCDOptions\<close> loop, with the error that
  follows it as the case of the exhausted list.\<close>

fun try_boot_targets ::
  "'w env \<Rightarrow> Client \<Rightarrow> string list \<Rightarrow> 'w state \<Rightarrow> (error + unit) \<times> 'w state"
where
  "try_boot_targets E c [] st =
     (Inl (Msg ''failed to set boot device to Virtual CD/DVD with any supported option''), st)"
| "try_boot_targets E c (bootTarget # rest) st =
     (case makeRequest E c PATCH system_endpoint (SystemBoot bootTarget ''Once'')
             (logf Info ''Attempting to set boot device to %s...'' st) of
        (Inl e, st1) \<Rightarrow>
          try_boot_targets E c rest (logf Warn ''Failed to set boot device to %s: %v'' st1)
      | (Inr (Response code body), st1) \<Rightarrow>
          if code = 200
          then (Inr (), logf Success ''Boot device set to Virtual CD/DVD (%s) successfully'' st1)
          else try_boot_targets E c rest
                 (logf Warn ''Failed to set boot device to %s, status code: %d'' st1))"

definition SetVirtualCDBootEnhanced ::
  "'w env \<Rightarrow> Client \<Rightarrow> 'w state \<Rightarrow> (error + unit) \<times> 'w state"
where
  "SetVirtualCDBootEnhanced E c st =
     (case GetVirtualMediaInfo E c
             (logf Info ''Setting boot device to Virtual CD/DVD (Enhanced)...'' st) of
        (Inl e, st1) \<Rightarrow>
          try_boot_targets E c virtualCDOptions
            (logf Warn ''Could not get virtual media info: %v'' st1)
      | (Inr mediaInfo, st1) \<Rightarrow>
          try_boot_targets E c virtualCDOptions
            (if \<not> Inserted mediaInfo
             then logf Warn ''No virtual media is currently inserted'' st1 else st1))"

definition ManageVirtualMediaBootProcess ::
  "'w env \<Rightarrow> Client \<Rightarrow> string \<Rightarrow> 'w state \<Rightarrow> (error + unit) \<times> 'w state"
where
  "ManageVirtualMediaBootProcess E c isoURL st =
     (let st0 = logf Info ''Step 1: Ejecting existing virtual media...''
                  (logf Info ''Starting enhanced virtual media boot management process...'' st);
          st1 = (case EjectVirtualMedia E c st0 of
                   (Inl e, s) \<Rightarrow> logf Warn ''Failed to eject existing virtual media: %v'' s
                 | (Inr u, s) \<Rightarrow> s);
          st2 = logf Info ''Step 2: Inserting new virtual media...'' (do_sleep E 10 st1)
      in case InsertVirtualMedia E c isoURL st2 of
           (Inl e, st3) \<Rightarrow> (Inl (Wrapped ''failed to insert virtual media'' e), st3)
         | (Inr u, st3) \<Rightarrow>
             (case SetVirtualCDBootEnhanced E c
                     (logf Info ''Step 3: Setting boot device to virtual CD/DVD...''
                       (do_sleep E 10 st3)) of
                (Inl e, st4) \<Rightarrow>
                  (Inl (Wrapped ''failed to set boot device to virtual CD/DVD'' e), st4)
              | (Inr u, st4) \<Rightarrow>
                  (case RestartSystem E c (logf Info ''Step 4: Restarting system...'' st4) of
                     (Inl e, st5) \<Rightarrow> (Inl (Wrapped ''failed to restart system'' e), st5)
                   | (Inr u, st5) \<Rightarrow>
                       (Inr (),
                        logf Success
                          ''Enhanced virtual media boot management process completed successfully''
                          st5))))"

section \<open>SSH operations (package ssh)\<close>

definition generateSSHKey :: "'w env \<Rightarrow> Config \<Rightarrow> 'w state \<Rightarrow> (error + unit) \<times> 'w state" where
  "generateSSHKey E cfg st =
     (case GetSSHKeyPrivatePath cfg of
        None \<Rightarrow> (Inl (Panic ''slice bounds out of range''), st)
      | Some sshKeyPath \<Rightarrow>
          (case do_exec E [''ssh-keygen'', ''-t'', ''ed25519'', ''-f'', sshKeyPath, ''-N'', '''', ''-q'']
                  (logf Info ''Generating SSH key at %s...'' st) of
             ((out, ok), st1) \<Rightarrow>
               if \<not> ok
               then (Inl (Wrapped ''failed to generate SSH key'' ExitErr),
                     logf Error ''Failed to generate SSH key: %s'' st1)
               else (Inr (), logf Success ''SSH key generated successfully'' st1)))"

definition CheckSSHKey :: "'w env \<Rightarrow> Config \<Rightarrow> 'w state \<Rightarrow> (error + unit) \<times> 'w state" where
  "CheckSSHKey E cfg st =
     (let st0 = logf Info ''Checking SSH key...'' st in
      case GetSSHKeyPrivatePath cfg of
        None \<Rightarrow> (Inl (Panic ''slice bounds out of range''), st0)
      | Some sshKeyPath \<Rightarrow>
          (case do_stat E sshKeyPath st0 of
             (missing, st1) \<Rightarrow>
               if missing
               then generateSSHKey E cfg
                      (logf Info ''SSH key not found. Generating a new ed25519 key...'' st1)
               else (Inr (), logf Info ''SSH key found: %s'' st1)))"

definition SetupSSHKey :: "'w env \<Rightarrow> Config \<Rightarrow> 'w state \<Rightarrow> (error + unit) \<times> 'w state" where
  "SetupSSHKey E cfg st =
     (case do_stat E (SSHKeyPath cfg) (logf Info ''Setting up SSH key on remote host...'' st) of
        (missing, st1) \<Rightarrow>
          if missing then (Inl (Errorf ''SSH public key not found: %s'' [SSHKeyPath cfg]), st1)
          else
            (case do_exec E
                    [''sshpass'', ''-p'', Password (IDRAC cfg), ''ssh-copy-id'', ''-i'', SSHKeyPath cfg,
                     ''-o'', ''StrictHostKeyChecking=no'', RemoteUser cfg @ ''@'' @ RemoteHost cfg]
                    (logf Info ''Copying SSH key to %s@%s...'' st1) of
               ((out, ok), st2) \<Rightarrow>
                 if \<not> ok
                 then (Inl (Wrapped ''failed to copy SSH key'' ExitErr),
                       logf Error ''Failed to copy SSH key: %s'' st2)
                 else (Inr (), logf Success ''SSH key copied successfully'' st2)))"

definition CopyFileToRemote ::
  "'w env \<Rightarrow> Config \<Rightarrow> string \<Rightarrow> string \<Rightarrow> 'w state \<Rightarrow> (error + unit) \<times> 'w state"
where
  "CopyFileToRemote E cfg localPath remotePath st =
     (case do_stat E localPath (logf Info ''Copying file to remote host...'' st) of
        (missing, st1) \<Rightarrow>
          if missing then (Inl (Errorf ''local file not found: %s'' [localPath]), st1)
          else
            (case do_exec E
                    [''scp'', ''-r'', localPath,
                     RemoteUser cfg @ ''@'' @ RemoteHost cfg @ '':'' @ remotePath]
                    (logf Info ''Copying %s to %s@%s:%s'' st1) of
               ((out, ok), st2) \<Rightarrow>
                 if \<not> ok
                 then (Inl (Wrapped ''failed to copy file'' ExitErr),
                       logf Error ''Failed to copy file: %s'' st2)
                 else (Inr (), logf Success ''File copied successfully'' st2)))"

definition CopyISOToRemote ::
  "'w env \<Rightarrow> Config \<Rightarrow> string \<Rightarrow> 'w state \<Rightarrow> (error + unit) \<times> 'w state"
where
  "CopyISOToRemote E cfg isoPath st =
     (case do_stat E isoPath (logf Info ''Copying ISO to remote host...'' st) of
        (missing, st1) \<Rightarrow>
          if missing
          then (Inl (Errorf ''ISO file not found: %s'' [isoPath]),
                logf Warn ''ISO file not found: %s'' st1)
          else CopyFileToRemote E cfg isoPath
                 (path_join E [RemotePath cfg, path_base E isoPath]) st1)"

section \<open>The external installer (package openshift)\<close>

text \<open>\<open>strings.Split(s, sep)\<close> for a one-byte separator, and \<open>strings.Fields\<close> on
  ASCII white space.\<close>

fun split_on :: "char \<Rightarrow> string \<Rightarrow> string list" where
  "split_on sep [] = [[]]"
| "split_on sep (x # xs) =
     (if x = sep then [] # split_on sep xs
      else (case split_on sep xs of [] \<Rightarrow> [[x]] | piece # pieces \<Rightarrow> (x # piece) # pieces))"

definition is_space :: "char \<Rightarrow> bool" where
  "is_space ch = (ch \<in> set [CHR 0x09, CHR 0x0A, CHR 0x0B, CHR 0x0C, CHR 0x0D, CHR 0x20])"

fun fields_from :: "string \<Rightarrow> string \<Rightarrow> string list" where
  "fields_from cur [] = (if cur = [] then [] else [cur])"
| "fields_from cur (x # xs) =
     (if is_space x then (if cur = [] then fields_from [] xs else cur # fields_from [] xs)
      else fields_from (cur @ [x]) xs)"

definition strings_Fields :: "string \<Rightarrow> string list" where
  "strings_Fields s = fields_from [] s"

text \<open>The loop over the lines of the \<open>oc adm release info\<close> output.\<close>

fun find_pull_from :: "string list \<Rightarrow> error + string" where
  "find_pull_from [] = Inl (Msg ''could not find release digest in output'')"
| "find_pull_from (line # lines) =
     (if strings_Contains line ''Pull From:'' \<and> 3 \<le> length (strings_Fields line)
      then Inr (strings_Fields line ! 2)
      else find_pull_from lines)"

definition getReleaseDigest :: "'w env \<Rightarrow> Config \<Rightarrow> 'w state \<Rightarrow> (error + string) \<times> 'w state" where
  "getReleaseDigest E cfg st =
     (case do_exec E
             [''oc'', ''adm'', ''release'', ''info'',
              ''quay.io/openshift-release-dev/ocp-release:'' @ Version cfg @ ''-x86_64'',
              ''--registry-config'', RegistryAuthFile cfg] st of
        ((out, ok), st1) \<Rightarrow>
          if \<not> ok then (Inl (Wrapped ''failed to get release info'' ExitErr), st1)
          else (find_pull_from (split_on (CHR 0x0A) out), st1))"

definition ExtractInstaller :: "'w env \<Rightarrow> Config \<Rightarrow> 'w state \<Rightarrow> (error + unit) \<times> 'w state" where
  "ExtractInstaller E cfg st =
     (case do_stat E (RegistryAuthFile cfg) (logf Info ''Extracting OpenShift installer...'' st) of
        (missing, st1) \<Rightarrow>
          if missing
          then (Inl (Errorf ''registry auth file not found: %s'' [RegistryAuthFile cfg]), st1)
          else
            (case getReleaseDigest E cfg st1 of
               (Inl e, st2) \<Rightarrow> (Inl (Wrapped ''failed to get release digest'' e), st2)
             | (Inr releaseDigest, st2) \<Rightarrow>
                 (case do_exec E
                         [''oc'', ''adm'', ''release'', ''extract'', ''-a'', RegistryAuthFile cfg,
                          ''--command=openshift-install'', releaseDigest]
                         (logf Info ''Running: %s'' (logf Info ''Release digest: %s'' st2)) of
                    ((out, ok), st3) \<Rightarrow>
                      if \<not> ok
                      then (Inl (Wrapped ''failed to extract installer'' ExitErr),
                            logf Error ''Failed to extract installer: %s'' st3)
                      else (Inr (), logf Success ''OpenShift installer extracted successfully'' st3))))"

definition cleanWorkDir :: "'w env \<Rightarrow> Config \<Rightarrow> 'w state \<Rightarrow> (error + unit) \<times> 'w state" where
  "cleanWorkDir E cfg st =
     (case do_stat E (WorkDir cfg) st of
        (missing, st1) \<Rightarrow>
          if missing then (Inr (), st1)
          else
            (case do_remove_all E (WorkDir cfg) (logf Info ''Cleaning existing work directory...'' st1) of
               (ok, st2) \<Rightarrow> if ok then (Inr (), st2) else (Inl OSErr, st2)))"

definition copyOpenshiftDir :: "'w env \<Rightarrow> Config \<Rightarrow> 'w state \<Rightarrow> (error + unit) \<times> 'w state" where
  "copyOpenshiftDir E cfg st =
     (let sourceOpenshiftDir = path_join E [SourceDir cfg, ''openshift''] in
      case do_stat E sourceOpenshiftDir st of
        (missing, st1) \<Rightarrow>
          if missing
          then (Inl (Errorf ''source openshift directory not found: %s'' [sourceOpenshiftDir]), st1)
          else
            (case do_exec E [''cp'', ''-r'', sourceOpenshiftDir, WorkDir cfg]
                    (logf Info ''Copying %s -> %s'' st1) of
               ((out, ok), st2) \<Rightarrow>
                 if \<not> ok then (Inl (Errorf ''failed to copy openshift directory: %s'' [out]), st2)
                 else (Inr (), st2)))"

definition configFiles :: "string list" where
  "configFiles = [''agent-config.yaml'', ''install-config.yaml'']"

text \<open>The \<open>for _, filename := range configFiles\<close> loop of \<open>copyConfigFiles\<close>.\<close>

fun copy_each :: "'w env \<Rightarrow> Config \<Rightarrow> string list \<Rightarrow> 'w state \<Rightarrow> (error + unit) \<times> 'w state" where
  "copy_each E cfg [] st = (Inr (), st)"
| "copy_each E cfg (filename # rest) st =
     (let sourceFile = path_join E [SourceDir cfg, filename];
          destFile = path_join E [WorkDir cfg, filename]
      in case do_stat E sourceFile st of
           (missing, st1) \<Rightarrow>
             if missing then (Inl (Errorf ''configuration file not found: %s'' [sourceFile]), st1)
             else
               (case do_exec E [''cp'', sourceFile, destFile] (logf Info ''Copying %s -> %s'' st1) of
                  ((out, ok), st2) \<Rightarrow>
                    if \<not> ok then (Inl (Errorf ''failed to copy %s: %s'' [filename, out]), st2)
                    else copy_each E cfg rest st2))"

definition copyConfigFiles :: "'w env \<Rightarrow> Config \<Rightarrow> 'w state \<Rightarrow> (error + unit) \<times> 'w state" where
  "copyConfigFiles E cfg st = copy_each E cfg configFiles st"

definition PrepareWorkDir :: "'w env \<Rightarrow> Config \<Rightarrow> 'w state \<Rightarrow> (error + unit) \<times> 'w state" where
  "PrepareWorkDir E cfg st =
     (case cleanWorkDir E cfg (logf Info ''Preparing work directory...'' st) of
        (Inl e, st1) \<Rightarrow> (Inl (Wrapped ''failed to clean work directory'' e), st1)
      | (Inr u, st1) \<Rightarrow>
          (case do_mkdir_all E (WorkDir cfg) st1 of
             (ok, st2) \<Rightarrow>
               if \<not> ok then (Inl (Wrapped ''failed to create work directory'' OSErr), st2)
               else
                 (case copyOpenshiftDir E cfg st2 of
                    (Inl e, st3) \<Rightarrow> (Inl (Wrapped ''failed to copy openshift directory'' e), st3)
                  | (Inr u, st3) \<Rightarrow>
                      (case copyConfigFiles E cfg st3 of
                         (Inl e, st4) \<Rightarrow>
                           (Inl (Wrapped ''failed to copy configuration files'' e), st4)
                       | (Inr u, st4) \<Rightarrow>
                           (Inr (), logf Success ''Work directory prepared successfully'' st4)))))"

definition create_image_cmd :: "Config \<Rightarrow> string list" where
  "create_image_cmd cfg =
     [InstallerPath cfg, ''agent'', ''create'', ''image'', ''--dir'', WorkDir cfg,
      ''--log-level'', ''debug'']"

definition CreateAgentImage :: "'w env \<Rightarrow> Config \<Rightarrow> 'w state \<Rightarrow> (error + unit) \<times> 'w state" where
  "CreateAgentImage E cfg st =
     (case do_stat E (InstallerPath cfg) (logf Info ''Creating agent image...'' st) of
        (missing, st1) \<Rightarrow>
          if missing
          then (Inl (Errorf ''openshift-install not found: %s'' [InstallerPath cfg]), st1)
          else
            (case do_chmod E (InstallerPath cfg) st1 of
               (ok, st2) \<Rightarrow>
                 if \<not> ok then (Inl (Wrapped ''failed to make installer executable'' OSErr), st2)
                 else
                   (case do_exec E (create_image_cmd cfg) (logf Info ''Running: %s'' st2) of
                      ((out, ok), st3) \<Rightarrow>
                        if \<not> ok
                        then (Inl (Wrapped ''failed to create agent image'' ExitErr),
                              logf Error ''Failed to create agent image: %s'' st3)
                        else (Inr (), logf Success ''Agent image created successfully'' st3))))"

definition WaitForInstallComplete ::
  "'w env \<Rightarrow> Config \<Rightarrow> 'w state \<Rightarrow> (error + unit) \<times> 'w state"
where
  "WaitForInstallComplete E cfg st =
     (case do_setenv E ''KUBECONFIG'' (path_join E [WorkDir cfg, ''auth'', ''kubeconfig''])
             (logf Info ''Waiting for installation to complete...'' st) of
        (ok, st1) \<Rightarrow>
          if \<not> ok then (Inl (Wrapped ''failed to set KUBECONFIG'' OSErr), st1)
          else
            (case do_exec E
                    [InstallerPath cfg, ''agent'', ''wait-for'', ''install-complete'', ''--dir'',
                     WorkDir cfg]
                    (logf Info ''Running: %s'' st1) of
               ((out, ok), st2) \<Rightarrow>
                 if \<not> ok
                 then (Inl (Wrapped ''installation wait failed'' ExitErr),
                       logf Error ''Installation wait failed: %s'' st2)
                 else (Inr (), logf Success ''Installation completed successfully'' st2)))"

section \<open>The application (package app, \<open>EnhancedApp\<close>)\<close>

text \<open>\<open>NewEnhancedApp\<close> builds the iDRAC client from the iDRAC part of the
  configuration; the installer and the SSH manager hold the whole configuration.\<close>

definition idrac :: "Config \<Rightarrow> Client" where
  "idrac cfg = NewClient (IDRAC cfg)"

definition cleanup :: "'w env \<Rightarrow> Config \<Rightarrow> bool \<Rightarrow> 'w state \<Rightarrow> (error + unit) \<times> 'w state" where
  "cleanup E cfg powerOff st =
     (let st1 = (case EjectVirtualMedia E (idrac cfg) (logf Info ''Performing cleanup...'' st) of
                   (Inl e, s) \<Rightarrow> logf Warn ''Failed to eject virtual media: %v'' s
                 | (Inr u, s) \<Rightarrow> s);
          st2 = (case SetHDDBoot E (idrac cfg) st1 of
                   (Inl e, s) \<Rightarrow> logf Warn ''Failed to set boot to HDD: %v'' s
                 | (Inr u, s) \<Rightarrow> s);
          st3 = (if powerOff
                 then (case PowerOffSystem E (idrac cfg) st2 of
                         (Inl e, s) \<Rightarrow> logf Warn ''Failed to power off system: %v'' s
                       | (Inr u, s) \<Rightarrow> s)
                 else st2)
      in (Inr (), logf Success ''Cleanup completed'' st3))"

definition manageVirtualMediaBootProcess ::
  "'w env \<Rightarrow> Config \<Rightarrow> string \<Rightarrow> 'w state \<Rightarrow> (error + unit) \<times> 'w state"
where
  "manageVirtualMediaBootProcess E cfg isoURL st =
     ManageVirtualMediaBootProcess E (idrac cfg) isoURL
       (logf Info ''Managing virtual media boot process...'' st)"

definition monitorInstallation :: "'w env \<Rightarrow> Config \<Rightarrow> 'w state \<Rightarrow> (error + unit) \<times> 'w state" where
  "monitorInstallation E cfg st =
     (case GetSystemPowerState E (idrac cfg) (logf Info ''Monitoring installation progress...'' st) of
        (Inl e, st1) \<Rightarrow> (Inr (), logf Warn ''Failed to get power state: %v'' st1)
      | (Inr powerState, st1) \<Rightarrow>
          if powerState = ''On''
          then WaitForInstallComplete E cfg
                 (logf Success ''Server is powered ON. Running wait-for install-complete...'' st1)
          else (Inr (),
                logf Warn ''Skipping wait-for install-complete.''
                  (logf Warn ''Server power state is: %s'' st1)))"

text \<open>\<open>fmt.Errorf("...: %w", err)\<close> in \<open>runInstall\<close>; a panic is not an error value
  and passes through unwrapped.\<close>

fun wrap :: "string \<Rightarrow> error \<Rightarrow> error" where
  "wrap m (Panic p) = Panic p"
| "wrap m e = Wrapped m e"

definition runInstall :: "'w env \<Rightarrow> Config \<Rightarrow> 'w state \<Rightarrow> (error + unit) \<times> 'w state" where
  "runInstall E cfg st =
     (case CheckConnectivity E (idrac cfg)
             (logf Info ''Starting OpenShift SNO Hub Installation with Enhanced iDRAC8 Management'' st) of
        (Inl e, st1) \<Rightarrow> (Inl (wrap ''iDRAC connectivity check failed'' e), st1)
      | (Inr u, st1) \<Rightarrow>
     let st2 = (case GetSystemInfo E (idrac cfg) st1 of
                  (Inl e, s) \<Rightarrow> logf Warn ''Failed to get system info: %v'' s
                | (Inr si, s) \<Rightarrow> s);
         st3 = (case GetSystemHealth E (idrac cfg) st2 of
                  (Inl e, s) \<Rightarrow> logf Warn ''Failed to get system health: %v'' s
                | (Inr h, s) \<Rightarrow> s)
     in
     (case CheckSSHKey E cfg st3 of
        (Inl e, st4) \<Rightarrow> (Inl (wrap ''failed to check SSH key'' e), st4)
      | (Inr u, st4) \<Rightarrow>
     (case SetupSSHKey E cfg st4 of
        (Inl e, st5) \<Rightarrow> (Inl (wrap ''failed to setup SSH key'' e), st5)
      | (Inr u, st5) \<Rightarrow>
     (case ExtractInstaller E cfg st5 of
        (Inl e, st6) \<Rightarrow> (Inl (wrap ''failed to extract installer'' e), st6)
      | (Inr u, st6) \<Rightarrow>
     (case PrepareWorkDir E cfg st6 of
        (Inl e, st7) \<Rightarrow> (Inl (wrap ''failed to prepare work directory'' e), st7)
      | (Inr u, st7) \<Rightarrow>
     (case CreateAgentImage E cfg st7 of
        (Inl e, st8) \<Rightarrow> (Inl (wrap ''failed to create agent image'' e), st8)
      | (Inr u, st8) \<Rightarrow>
     (case CopyISOToRemote E cfg (GetISOFilePath E cfg) st8 of
        (Inl e, st9) \<Rightarrow> (Inl (wrap ''failed to copy ISO to remote'' e), st9)
      | (Inr u, st9) \<Rightarrow>
     (case manageVirtualMediaBootProcess E cfg (ISOURL cfg) st9 of
        (Inl e, st10) \<Rightarrow> (Inl (wrap ''failed to manage virtual media boot process'' e), st10)
      | (Inr u, st10) \<Rightarrow>
     (case monitorInstallation E cfg st10 of
        (Inl e, st11) \<Rightarrow> (Inl (wrap ''failed to monitor installation'' e), st11)
      | (Inr u, st11) \<Rightarrow>
     (case cleanup E cfg False st11 of
        (Inl e, st12) \<Rightarrow>
          (Inr (),
           logf Success ''OpenShift SNO Hub installation completed successfully!''
             (logf Warn ''Cleanup failed: %v'' st12))
      | (Inr u, st12) \<Rightarrow>
          (Inr (),
           logf Success ''OpenShift SNO Hub installation completed successfully!'' st12)))))))))))"

section \<open>The file server (go-webcache)\<close>

text \<open>
  A file on disk, as the server sees it: its bytes (\<open>None\<close> when reading them fails) and
  its modification time (\<open>None\<close> when \<open>Stat\<close> fails). The file system maps a path to
  the file that \<open>os.Open\<close> returns, \<open>None\<close> when it returns an error. Times are seconds.
\<close>

datatype disk_file = File "string option" "int option"

type_synonym filesystem = "string \<Rightarrow> disk_file option"

text \<open>The library functions the server calls: the MD5 digest, the \<open>http.TimeFormat\<close>
  rendering of a time, and \<open>http.ServeContent\<close>.\<close>

type_synonym headers = "string \<Rightarrow> string option"

record http_request =
  req_path :: string
  req_headers :: headers

record http_response =
  resp_status :: nat
  resp_headers :: headers
  resp_body :: string

record library =
  md5_sum :: "string \<Rightarrow> string"
  time_format :: "int \<Rightarrow> string"
  serve_content :: "headers \<Rightarrow> http_request \<Rightarrow> string \<Rightarrow> int \<Rightarrow> disk_file \<Rightarrow> http_response"

text \<open>\<open>fmt.Sprintf("%x", bytes)\<close>: two lower-case hexadecimal digits for each byte.\<close>

definition hex_digit :: "nat \<Rightarrow> char" where
  "hex_digit n = ''0123456789abcdef'' ! (n mod 16)"

definition hex_byte :: "char \<Rightarrow> string" where
  "hex_byte ch = [hex_digit (of_char ch div 16), hex_digit (of_char ch mod 16)]"

definition hex :: "string \<Rightarrow> string" where
  "hex bs = concat (map hex_byte bs)"

definition calculateETag :: "library \<Rightarrow> filesystem \<Rightarrow> string \<Rightarrow> error + (string \<times> int)" where
  "calculateETag L fs path =
     (case fs path of
        None \<Rightarrow> Inl OSErr
      | Some (File bytes mtime) \<Rightarrow>
          (case bytes of
             None \<Rightarrow> Inl ReadErr
           | Some content \<Rightarrow>
               (case mtime of
                  None \<Rightarrow> Inl OSErr
                | Some t \<Rightarrow> Inr ([CHR 0x22] @ hex (md5_sum L content) @ [CHR 0x22], t))))"

text \<open>What \<open>main\<close> keeps for its handler: the path read from standard input and the two
  values \<open>calculateETag\<close> returned before the handler was registered.\<close>

record server =
  inputPath :: string
  etag :: string
  modTime :: int

definition start_server :: "library \<Rightarrow> filesystem \<Rightarrow> string \<Rightarrow> error + server" where
  "start_server L fs path =
     (case calculateETag L fs path of
        Inl e \<Rightarrow> Inl e
      | Inr (tag, t) \<Rightarrow> Inr \<lparr>inputPath = path, etag = tag, modTime = t\<rparr>)"

definition header_Get :: "headers \<Rightarrow> string \<Rightarrow> string" where
  "header_Get h k = (case h k of None \<Rightarrow> [] | Some v \<Rightarrow> v)"

datatype fs_event = Opened string

text \<open>The headers the handler sets before it hands over to \<open>http.ServeContent\<close>.\<close>

definition full_headers :: "library \<Rightarrow> server \<Rightarrow> headers" where
  "full_headers L srv =
     [''Content-Type'' \<mapsto> ''application/octet-stream'',
      ''Content-Disposition'' \<mapsto> ''attachment; filename=agent.x86_64.iso'',
      ''Cache-Control'' \<mapsto> ''public, max-age=86400'',
      ''ETag'' \<mapsto> etag srv,
      ''Last-Modified'' \<mapsto> time_format L (modTime srv)]"

text \<open>\<open>http.Error(w, "File not found", http.StatusNotFound)\<close>.\<close>

definition not_found :: http_response where
  "not_found =
     \<lparr>resp_status = 404,
      resp_headers = [''Content-Type'' \<mapsto> ''text/plain; charset=utf-8'',
                      ''X-Content-Type-Options'' \<mapsto> ''nosniff''],
      resp_body = ''File not found'' @ [CHR 0x0A]\<rparr>"

text \<open>The handler registered for \<open>/agent.x86_64.iso\<close>. It runs against the file system
  as it is when the request arrives, and returns the response together with the files it
  opened.\<close>

definition handler ::
  "library \<Rightarrow> server \<Rightarrow> filesystem \<Rightarrow> http_request \<Rightarrow> http_response \<times> fs_event list"
where
  "handler L srv fs r =
     (let match = header_Get (req_headers r) ''If-None-Match'' in
      if match \<noteq> [] \<and> match = etag srv
      then (\<lparr>resp_status = 304, resp_headers = Map.empty, resp_body = []\<rparr>, [])
      else
        (case fs (inputPath srv) of
           None \<Rightarrow> (not_found, [Opened (inputPath srv)])
         | Some f \<Rightarrow>
             (serve_content L (full_headers L srv) r ''agent.x86_64.iso'' (modTime srv) f,
              [Opened (inputPath srv)])))"

section \<open>Reading the trace\<close>

text \<open>The calls of \<open>makeRequest\<close> in a trace, in order, each with what it returned.\<close>

fun http_of :: "event \<Rightarrow> (request \<times> (error + response)) list" where
  "http_of (Http req out) = [(req, out)]"
| "http_of _ = []"

definition http_log :: "event list \<Rightarrow> (request \<times> (error + response)) list" where
  "http_log tr = concat (map http_of tr)"

text \<open>The requests the client builds.\<close>

definition system_query :: "Client \<Rightarrow> request" where
  "system_query c = Request GET (baseURL c @ system_endpoint) NoBody"

definition media_query :: "Client \<Rightarrow> request" where
  "media_query c = Request GET (baseURL c @ media_endpoint) NoBody"

definition boot_patch :: "Client \<Rightarrow> string \<Rightarrow> request" where
  "boot_patch c t = Request PATCH (baseURL c @ system_endpoint) (SystemBoot t ''Once'')"

definition reset_request :: "Client \<Rightarrow> string \<Rightarrow> request" where
  "reset_request c t = Request POST (baseURL c @ reset_endpoint) (ResetRequest t)"

definition eject_request :: "Client \<Rightarrow> request" where
  "eject_request c = Request POST (baseURL c @ eject_endpoint) EmptyObject"

definition insert_request :: "Client \<Rightarrow> string \<Rightarrow> request" where
  "insert_request c url = Request POST (baseURL c @ insert_endpoint) (VirtualMediaRequest url)"

text \<open>A boot-target attempt succeeded: a response came back and its status is 200.\<close>

fun attempt_ok :: "error + response \<Rightarrow> bool" where
  "attempt_ok (Inr (Response code body)) = (code = 200)"
| "attempt_ok (Inl e) = False"


text \<open>The power state that \<open>GetSystemPowerState\<close> reads off the outcome of its request;
  \<open>None\<close> when it returns an error.\<close>

fun observed_state :: "'w env \<Rightarrow> error + response \<Rightarrow> string option" where
  "observed_state E (Inr (Response code body)) =
     (if code = 200
      then (case body of None \<Rightarrow> None | Some b \<Rightarrow> map_option PowerState (unmarshal_system E b))
      else None)"
| "observed_state E (Inl e) = None"

text \<open>Reset commands: the requests that carry a \<open>ResetRequest\<close>.\<close>

fun is_reset :: "request \<times> (error + response) \<Rightarrow> bool" where
  "is_reset (Request m url (ResetRequest t), out) = True"
| "is_reset _ = False"

definition resets :: "event list \<Rightarrow> (request \<times> (error + response)) list" where
  "resets tr = filter is_reset (http_log tr)"

text \<open>Power-state queries: the GET requests to the system resource.\<close>

definition power_queries :: "Client \<Rightarrow> event list \<Rightarrow> (request \<times> (error + response)) list" where
  "power_queries c tr = filter (\<lambda>(req, out). req = system_query c) (http_log tr)"

text \<open>The warnings in a trace, and the sleeps.\<close>

fun warning_of :: "event \<Rightarrow> string list" where
  "warning_of (Log Warn m) = [m]"
| "warning_of _ = []"

definition warnings :: "event list \<Rightarrow> string list" where
  "warnings tr = concat (map warning_of tr)"

fun sleep_of :: "event \<Rightarrow> nat list" where
  "sleep_of (Slept n) = [n]"
| "sleep_of _ = []"

definition sleeps :: "event list \<Rightarrow> nat list" where
  "sleeps tr = concat (map sleep_of tr)"

text \<open>The marks \<open>CreateAgentImage\<close> leaves: its first log line and the run of the
  installer's image command.\<close>

definition image_events :: "Config \<Rightarrow> event list \<Rightarrow> event list" where
  "image_events cfg tr =
     filter (\<lambda>e. e = Log Info ''Creating agent image...''
                \<or> e = Exec (create_image_cmd cfg) True
                \<or> e = Exec (create_image_cmd cfg) False) tr"

section \<open>A scripted controller\<close>

text \<open>
  An environment to run the model on: the world is the list of replies the controller
  will give, one for each request in turn (\<open>None\<close> and the exhausted list are transport
  failures). The paths in \<open>absent\<close> do not exist, the command lines in \<open>failing\<close>
  exit with an error, every other command prints a release line. A response body is read
  as the power state.
\<close>

definition next_reply :: "request \<Rightarrow> response option list \<Rightarrow> response option \<times> response option list" where
  "next_reply req w = (case w of [] \<Rightarrow> (None, []) | x # xs \<Rightarrow> (x, xs))"

definition scripted :: "string list \<Rightarrow> string list list \<Rightarrow> (response option list) env" where
  "scripted absent failing =
     \<lparr>http_do = next_reply,
      url_ok = (\<lambda>u. True),
      sleep = (\<lambda>n w. w),
      ctx_done = (\<lambda>w. False),
      stat_missing = (\<lambda>p w. p \<in> set absent),
      exec = (\<lambda>args w. ((''Pull From: quay.io/release@sha256:0'', args \<notin> set failing), w)),
      remove_all = (\<lambda>p w. (True, w)),
      mkdir_all = (\<lambda>p w. (True, w)),
      chmod = (\<lambda>p w. (True, w)),
      setenv = (\<lambda>k v w. (True, w)),
      unmarshal_system =
        (\<lambda>b. Some \<lparr>Manufacturer = ''Dell Inc.'', Model = ''PowerEdge R640'', SerialNumber = ''ABC123456'',
                    BiosVersion = ''2.15.0'', PowerState = b, Health = []\<rparr>),
      unmarshal_media =
        (\<lambda>b. Some \<lparr>ConnectedVia = ''URI'', Image = b, ImageName = ''agent.x86_64.iso'',
                    Inserted = True, MediaTypes = [''CD'', ''DVD'']\<rparr>),
      path_join = (\<lambda>ps. foldr (\<lambda>p acc. if acc = [] then p else p @ ''/'' @ acc) ps []),
      path_base = (\<lambda>p. last (split_on (CHR ''/'') p))\<rparr>"

definition start :: "response option list \<Rightarrow> (response option list) state" where
  "start replies = \<lparr>world = replies, trace = []\<rparr>"

definition ok_reply :: "string \<Rightarrow> response option" where
  "ok_reply b = Some (Response 200 (Some b))"

definition test_config :: Config where
  "test_config =
     \<lparr>IDRAC = \<lparr>IP = ''192.168.1.228'', Username = ''root'', Password = ''secret'',
               VerifySSL = False, Timeout = 30\<rparr>,
      Version = ''4.16.45'', ClusterName = ''sno-hub'', RegistryAuthFile = ''./config.json'',
      RemoteUser = ''rock'', RemoteHost = ''192.168.1.21'', RemotePath = ''/apps/webcache/OSs/'',
      ISOURL = ''http://192.168.1.21:8080/OSs/agent.x86_64.iso'',
      WorkDir = ''./workdir'', SourceDir = ''./abi-master-0'',
      SSHKeyPath = ''/root/.ssh/id_ed25519.pub'', InstallerPath = ''./openshift-install''\<rparr>"

definition test_client :: Client where
  "test_client = NewClient (IDRAC test_config)"

text \<open>A library for the file server to run on: the digest is a stand-in that keeps the
  first sixteen bytes, the time is rendered as a count of seconds, and content is served
  whole with the headers it was given.\<close>

fun digits :: "nat \<Rightarrow> nat \<Rightarrow> string" where
  "digits 0 n = []"
| "digits (Suc k) n = (if n < 10 then [] else digits k (n div 10)) @ [hex_digit (n mod 10)]"

definition test_library :: library where
  "test_library =
     \<lparr>md5_sum = (\<lambda>s. take 16 s),
      time_format = (\<lambda>t. digits 20 (nat t)),
      serve_content =
        (\<lambda>h r name t f. \<lparr>resp_status = 200, resp_headers = h,
                           resp_body = (case f of File bytes mtime \<Rightarrow> (case bytes of None \<Rightarrow> [] | Some b \<Rightarrow> b))\<rparr>)\<rparr>"

definition test_fs :: "string \<Rightarrow> filesystem" where
  "test_fs content = [''/srv/agent.x86_64.iso'' \<mapsto> File (Some content) (Some 1700000000)]"

text \<open>A server started on a file that holds \<open>hello\<close>, a request that carries its ETag,
  and a request without the header.\<close>

definition hello_request :: http_request where
  "hello_request =
     \<lparr>req_path = ''/agent.x86_64.iso'',
      req_headers = [''If-None-Match'' \<mapsto> [CHR 0x22] @ ''68656c6c6f'' @ [CHR 0x22]]\<rparr>"

definition plain_request :: http_request where
  "plain_request = \<lparr>req_path = ''/agent.x86_64.iso'', req_headers = Map.empty\<rparr>"

definition hello_server :: server where
  "hello_server =
     \<lparr>inputPath = ''/srv/agent.x86_64.iso'', etag = [CHR 0x22] @ ''68656c6c6f'' @ [CHR 0x22],
      modTime = 1700000000\<rparr>"

section \<open>Facts about the trace\<close>

declare poll_loop.simps [simp del]

lemma http_log_append [simp]: "http_log (a @ b) = http_log a @ http_log b"
  by (simp add: http_log_def)

lemma http_log_Nil [simp]: "http_log [] = []"
  by (simp add: http_log_def)

lemma http_log_Cons [simp]: "http_log (e # tr) = http_of e @ http_log tr"
  by (simp add: http_log_def)

lemma warnings_append [simp]: "warnings (a @ b) = warnings a @ warnings b"
  by (simp add: warnings_def)

lemma warnings_Nil [simp]: "warnings [] = []"
  by (simp add: warnings_def)

lemma warnings_Cons [simp]: "warnings (e # tr) = warning_of e @ warnings tr"
  by (simp add: warnings_def)

lemma sleeps_append [simp]: "sleeps (a @ b) = sleeps a @ sleeps b"
  by (simp add: sleeps_def)

lemma sleeps_Nil [simp]: "sleeps [] = []"
  by (simp add: sleeps_def)

lemma sleeps_Cons [simp]: "sleeps (e # tr) = sleep_of e @ sleeps tr"
  by (simp add: sleeps_def)

lemma image_events_append [simp]:
  "image_events cfg (a @ b) = image_events cfg a @ image_events cfg b"
  by (simp add: image_events_def)

lemma image_events_Nil [simp]: "image_events cfg [] = []"
  by (simp add: image_events_def)

lemma resets_append [simp]: "resets (a @ b) = resets a @ resets b"
  by (simp add: resets_def)

lemma power_queries_append [simp]:
  "power_queries c (a @ b) = power_queries c a @ power_queries c b"
  by (simp add: power_queries_def)

lemma trace_emit [simp]: "trace (emit e st) = trace st @ [e]"
  by (simp add: emit_def)

lemma trace_logf [simp]: "trace (logf l m st) = trace st @ [Log l m]"
  by (simp add: logf_def)

lemma trace_do_sleep [simp]: "trace (do_sleep E n st) = trace st @ [Slept n]"
  by (simp add: do_sleep_def)

lemma world_emit [simp]: "world (emit e st) = world st"
  by (simp add: emit_def)

lemma world_logf [simp]: "world (logf l m st) = world st"
  by (simp add: logf_def)





lemma do_chmod_trace:
  "do_chmod E p st = (ok, st') \<Longrightarrow> trace st' = trace st @ [Chmod p ok]"
  by (auto simp: do_chmod_def split: prod.splits)


subsection \<open>One request for each call of the client\<close>

lemma makeRequest_trace:
  "makeRequest E c m ep b st = (out, st') \<Longrightarrow>
     \<exists>logs. trace st' = trace st @ logs @ [Http (Request m (baseURL c @ ep) b) out]
        \<and> set logs \<subseteq> {Log Debug ''Making %s request to %s'', Log Debug ''Request body: %+v''}"
  by (auto simp: makeRequest_def Let_def split: if_splits prod.splits option.splits)

lemma makeRequest_http:
  "makeRequest E c m ep b st = (out, st') \<Longrightarrow>
     http_log (trace st') = http_log (trace st) @ [(Request m (baseURL c @ ep) b, out)]
     \<and> warnings (trace st') = warnings (trace st)"
  by (auto simp: makeRequest_def Let_def split: if_splits prod.splits option.splits)

lemma GetSystemInfo_http:
  "GetSystemInfo E c st = (r, st') \<Longrightarrow>
     \<exists>out. http_log (trace st') = http_log (trace st) @ [(system_query c, out)]
        \<and> (case r of Inl e \<Rightarrow> observed_state E out = None
            | Inr si \<Rightarrow> observed_state E out = Some (PowerState si))"
  unfolding GetSystemInfo_def system_query_def
  by (auto split: prod.splits sum.splits response.splits if_splits option.splits
           dest!: makeRequest_http)

lemma GetSystemPowerState_http:
  "GetSystemPowerState E c st = (r, st') \<Longrightarrow>
     \<exists>out. http_log (trace st') = http_log (trace st) @ [(system_query c, out)]
        \<and> (case r of Inl e \<Rightarrow> observed_state E out = None
            | Inr powerState \<Rightarrow> observed_state E out = Some powerState)"
  unfolding GetSystemPowerState_def
  by (auto split: prod.splits sum.splits dest!: GetSystemInfo_http)

lemma GetVirtualMediaInfo_http:
  "GetVirtualMediaInfo E c st = (r, st') \<Longrightarrow>
     \<exists>out. http_log (trace st') = http_log (trace st) @ [(media_query c, out)]"
  unfolding GetVirtualMediaInfo_def media_query_def
  by (auto split: prod.splits sum.splits response.splits if_splits option.splits
           dest!: makeRequest_http)

lemma try_boot_targets_http:
  "try_boot_targets E c ts st = (r, st') \<Longrightarrow>
     \<exists>outs. http_log (trace st') = http_log (trace st) @ zip (map (boot_patch c) ts) outs
        \<and> length outs \<le> length ts
        \<and> (\<forall>out \<in> set (butlast outs). \<not> attempt_ok out)
        \<and> (r = Inr () \<longrightarrow> outs \<noteq> [] \<and> attempt_ok (last outs))
        \<and> (r \<noteq> Inr () \<longrightarrow> length outs = length ts \<and> (\<forall>out \<in> set outs. \<not> attempt_ok out)
              \<and> r = Inl (Msg ''failed to set boot device to Virtual CD/DVD with any supported option''))"
proof (induction ts arbitrary: st)
  case Nil
  then show ?case by auto
next
  case (Cons t ts)
  obtain out st1 where mr:
    "makeRequest E c PATCH system_endpoint (SystemBoot t ''Once'')
       (logf Info ''Attempting to set boot device to %s...'' st) = (out, st1)"
    by (cases "makeRequest E c PATCH system_endpoint (SystemBoot t ''Once'')
       (logf Info ''Attempting to set boot device to %s...'' st)") auto
  from makeRequest_http[OF mr]
  have h1: "http_log (trace st1) = http_log (trace st) @ [(boot_patch c t, out)]"
    by (simp add: boot_patch_def)
  show ?case
  proof (cases "attempt_ok out")
    case True
    then obtain body where out: "out = Inr (Response 200 body)"
      by (cases out rule: attempt_ok.cases) auto
    with Cons.prems mr have "r = Inr ()"
      and "st' = logf Success ''Boot device set to Virtual CD/DVD (%s) successfully'' st1"
      by auto
    with h1 True show ?thesis
      by (intro exI[of _ "[out]"]) simp
  next
    case False
    then obtain w where rec: "try_boot_targets E c ts (logf Warn w st1) = (r, st')"
      using Cons.prems mr
      by (cases out rule: attempt_ok.cases) (auto split: if_splits)
    from Cons.IH[OF rec] obtain outs where
      o: "http_log (trace st') = http_log (trace (logf Warn w st1)) @ zip (map (boot_patch c) ts) outs"
        "length outs \<le> length ts"
        "\<forall>out \<in> set (butlast outs). \<not> attempt_ok out"
        "r = Inr () \<longrightarrow> outs \<noteq> [] \<and> attempt_ok (last outs)"
        "r \<noteq> Inr () \<longrightarrow> length outs = length ts \<and> (\<forall>out \<in> set outs. \<not> attempt_ok out)
              \<and> r = Inl (Msg ''failed to set boot device to Virtual CD/DVD with any supported option'')"
      by blast
    show ?thesis
      using o h1 False
      by (intro exI[of _ "out # outs"]) (auto dest: in_set_butlastD)
  qed
qed

lemma SetVirtualCDBootEnhanced_http:
  "SetVirtualCDBootEnhanced E c st = (r, st') \<Longrightarrow>
     \<exists>q outs. http_log (trace st') =
                 http_log (trace st) @ (media_query c, q) # zip (map (boot_patch c) virtualCDOptions) outs
        \<and> length outs \<le> 3
        \<and> (\<forall>out \<in> set (butlast outs). \<not> attempt_ok out)
        \<and> (r = Inr () \<longrightarrow> outs \<noteq> [] \<and> attempt_ok (last outs))
        \<and> (r \<noteq> Inr () \<longrightarrow> length outs = 3 \<and> (\<forall>out \<in> set outs. \<not> attempt_ok out)
              \<and> r = Inl (Msg ''failed to set boot device to Virtual CD/DVD with any supported option''))"
proof -
  assume run: "SetVirtualCDBootEnhanced E c st = (r, st')"
  obtain m st1 where g:
    "GetVirtualMediaInfo E c (logf Info ''Setting boot device to Virtual CD/DVD (Enhanced)...'' st)
       = (m, st1)"
    by (cases "GetVirtualMediaInfo E c
                 (logf Info ''Setting boot device to Virtual CD/DVD (Enhanced)...'' st)") auto
  from GetVirtualMediaInfo_http[OF g] obtain q where
    q: "http_log (trace st1) = http_log (trace st) @ [(media_query c, q)]"
    by auto
  from run g obtain st2 where
    t: "try_boot_targets E c virtualCDOptions st2 = (r, st')"
    and st2: "http_log (trace st2) = http_log (trace st1)"
    by (auto simp: SetVirtualCDBootEnhanced_def split: sum.splits if_splits)
  from try_boot_targets_http[OF t] obtain outs where
    o: "http_log (trace st') = http_log (trace st2) @ zip (map (boot_patch c) virtualCDOptions) outs"
       "length outs \<le> length virtualCDOptions"
       "\<forall>out \<in> set (butlast outs). \<not> attempt_ok out"
       "r = Inr () \<longrightarrow> outs \<noteq> [] \<and> attempt_ok (last outs)"
       "r \<noteq> Inr () \<longrightarrow> length outs = length virtualCDOptions
              \<and> (\<forall>out \<in> set outs. \<not> attempt_ok out)
              \<and> r = Inl (Msg ''failed to set boot device to Virtual CD/DVD with any supported option'')"
    by blast
  have len: "length virtualCDOptions = 3"
    by (simp add: virtualCDOptions_def)
  have "http_log (trace st') =
          http_log (trace st) @ (media_query c, q) # zip (map (boot_patch c) virtualCDOptions) outs"
    using o(1) st2 q by simp
  with o(2-5) len show ?thesis
    by (intro exI[of _ q] exI[of _ outs]) simp
qed

subsection \<open>The polling loop\<close>


lemma poll_loop_http:
  "poll_loop E c expected okmsg faillog failmsg attempt st = (r, st') \<Longrightarrow>
   \<exists>outs. http_log (trace st') = http_log (trace st) @ map (Pair (system_query c)) outs
      \<and> length outs \<le> maxAttempts - attempt
      \<and> (\<forall>out \<in> set (butlast outs). observed_state E out \<noteq> Some expected)
      \<and> (r = Inr () \<longrightarrow> outs \<noteq> [] \<and> observed_state E (last outs) = Some expected)
      \<and> (r \<noteq> Inr () \<longrightarrow>
            (\<forall>out \<in> set outs. observed_state E out \<noteq> Some expected)
          \<and> (r = Inl (Msg failmsg) \<and> length outs = maxAttempts - attempt
               \<or> r = Inl Cancelled \<and> length outs < maxAttempts - attempt))"
proof (induction E c expected okmsg faillog failmsg attempt st arbitrary: r st'
         rule: poll_loop.induct)
  case (1 E c expected okmsg faillog failmsg attempt st)
  note run = "1.prems"
  show ?case
  proof (cases "attempt < maxAttempts")
    case False
    with run have "r = Inl (Msg failmsg)" and "st' = logf Error faillog st"
      by (simp_all add: poll_loop.simps[of E c expected okmsg faillog failmsg attempt st])
    with False show ?thesis
      by (intro exI[of _ "[]"]) simp
  next
    case lt: True
    show ?thesis
    proof (cases "ctx_done E (world st)")
      case True
      with run lt have "r = Inl Cancelled" and "st' = st"
        by (simp_all add: poll_loop.simps[of E c expected okmsg faillog failmsg attempt st])
      with lt show ?thesis
        by (intro exI[of _ "[]"]) simp
    next
      case nd: False
      obtain q st1 where g: "GetSystemPowerState E c st = (q, st1)"
        by (cases "GetSystemPowerState E c st") auto
      from GetSystemPowerState_http[OF g] obtain out where
        h: "http_log (trace st1) = http_log (trace st) @ [(system_query c, out)]"
        and obs: "case q of Inl e \<Rightarrow> observed_state E out = None
                  | Inr powerState \<Rightarrow> observed_state E out = Some powerState"
        by blast
      show ?thesis
      proof (cases "observed_state E out = Some expected")
        case True
        with obs have q: "q = Inr expected"
          by (cases q) auto
        with run lt nd g have "r = Inr ()" and "st' = logf Success okmsg st1"
          by (simp_all add: poll_loop.simps[of E c expected okmsg faillog failmsg attempt st])
        with h True lt show ?thesis
          by (intro exI[of _ "[out]"]) simp
      next
        case ne: False
        obtain st2 where
          rec: "poll_loop E c expected okmsg faillog failmsg (attempt + 1) st2 = (r, st')"
          and st2: "http_log (trace st2) = http_log (trace st1)"
          and ih: "\<And>r st'. poll_loop E c expected okmsg faillog failmsg (attempt + 1) st2 = (r, st') \<Longrightarrow>
            \<exists>outs. http_log (trace st') = http_log (trace st2) @ map (Pair (system_query c)) outs
      \<and> length outs \<le> maxAttempts - (attempt + 1)
      \<and> (\<forall>out \<in> set (butlast outs). observed_state E out \<noteq> Some expected)
      \<and> (r = Inr () \<longrightarrow> outs \<noteq> [] \<and> observed_state E (last outs) = Some expected)
      \<and> (r \<noteq> Inr () \<longrightarrow>
            (\<forall>out \<in> set outs. observed_state E out \<noteq> Some expected)
          \<and> (r = Inl (Msg failmsg) \<and> length outs = maxAttempts - (attempt + 1)
               \<or> r = Inl Cancelled \<and> length outs < maxAttempts - (attempt + 1)))"
        proof (cases q)
          case (Inl e)
          let ?s = "do_sleep E 10
                   (logf Info ''System power state: %s, waiting... (attempt %d/%d)''
                     (logf Warn ''Failed to get power state: %v'' st1))"
          have a: "poll_loop E c expected okmsg faillog failmsg (attempt + 1) ?s = (r, st')"
            using run lt nd g Inl
            by (simp add: poll_loop.simps[of E c expected okmsg faillog failmsg attempt st])
          have b: "http_log (trace ?s) = http_log (trace st1)" by simp
          show ?thesis
            by (rule that[of ?s, OF a b]) (rule "1.IH"(1)[OF lt nd g[symmetric] Inl])
        next
          case (Inr ps)
          with obs ne have neq: "ps \<noteq> expected" by auto
          let ?s = "do_sleep E 10
                     (logf Info ''System power state: %s, waiting... (attempt %d/%d)'' st1)"
          have a: "poll_loop E c expected okmsg faillog failmsg (attempt + 1) ?s = (r, st')"
            using run lt nd g Inr neq
            by (simp add: poll_loop.simps[of E c expected okmsg faillog failmsg attempt st])
          have b: "http_log (trace ?s) = http_log (trace st1)" by simp
          show ?thesis
            by (rule that[of ?s, OF a b]) (rule "1.IH"(2)[OF lt nd g[symmetric] Inr neq])
        qed
        from ih[OF rec] obtain outs where
          o: "http_log (trace st') = http_log (trace st2) @ map (Pair (system_query c)) outs"
             "length outs \<le> maxAttempts - (attempt + 1)"
             "\<forall>out \<in> set (butlast outs). observed_state E out \<noteq> Some expected"
             "r = Inr () \<longrightarrow> outs \<noteq> [] \<and> observed_state E (last outs) = Some expected"
             "r \<noteq> Inr () \<longrightarrow>
                (\<forall>out \<in> set outs. observed_state E out \<noteq> Some expected)
              \<and> (r = Inl (Msg failmsg) \<and> length outs = maxAttempts - (attempt + 1)
                   \<or> r = Inl Cancelled \<and> length outs < maxAttempts - (attempt + 1))"
          by blast
        show ?thesis
          using o h st2 ne lt
          by (intro exI[of _ "out # outs"]) (auto dest: in_set_butlastD)
      qed
    qed
  qed
qed

subsection \<open>The single actions\<close>






lemma SetHDDBoot_http:
  "SetHDDBoot E c st = (r, st') \<Longrightarrow>
     \<exists>out. http_log (trace st') = http_log (trace st) @ [(boot_patch c ''Hdd'', out)]
        \<and> (r = Inr () \<longleftrightarrow> attempt_ok out)"
  unfolding SetHDDBoot_def boot_patch_def
  by (auto split: prod.splits sum.splits response.splits if_splits
           dest!: makeRequest_http)

lemma WaitForSystemPowerOn_http:
  "WaitForSystemPowerOn E c st = (r, st') \<Longrightarrow>
     \<exists>outs. http_log (trace st') = http_log (trace st) @ map (Pair (system_query c)) outs"
  unfolding WaitForSystemPowerOn_def
  by (drule poll_loop_http) auto

lemma WaitForSystemPowerOff_http:
  "WaitForSystemPowerOff E c st = (r, st') \<Longrightarrow>
     \<exists>outs. http_log (trace st') = http_log (trace st) @ map (Pair (system_query c)) outs"
  unfolding WaitForSystemPowerOff_def
  by (drule poll_loop_http) auto

lemma PowerOnSystem_http:
  assumes "PowerOnSystem E c st = (r, st')"
  shows "\<exists>out rest. http_log (trace st') = http_log (trace st) @ (system_query c, out) # rest
           \<and> (observed_state E out = Some ''On'' \<longrightarrow> r = Inr () \<and> rest = [])"
proof -
  obtain q st1 where g: "GetSystemPowerState E c (logf Info ''Powering on system...'' st) = (q, st1)"
    by (cases "GetSystemPowerState E c (logf Info ''Powering on system...'' st)") auto
  from GetSystemPowerState_http[OF g] obtain out where
    h: "http_log (trace st1) = http_log (trace st) @ [(system_query c, out)]"
    and obs: "case q of Inl e \<Rightarrow> observed_state E out = None
              | Inr powerState \<Rightarrow> observed_state E out = Some powerState"
    by auto
  show ?thesis
  proof (cases "observed_state E out = Some ''On''")
    case True
    with obs have "q = Inr ''On''" by (cases q) auto
    with assms g have "r = Inr ()" and "st' = logf Info ''System is already powered on'' st1"
      by (simp_all add: PowerOnSystem_def)
    with h True show ?thesis by simp
  next
    case False
    have "\<exists>rest. http_log (trace st') = http_log (trace st1) @ rest"
      using assms g False obs
      by (auto simp: PowerOnSystem_def split: sum.splits prod.splits response.splits if_splits
               dest!: makeRequest_http WaitForSystemPowerOn_http)
    with h False show ?thesis by auto
  qed
qed

lemma PowerOffSystem_http:
  assumes "PowerOffSystem E c st = (r, st')"
  shows "\<exists>out rest. http_log (trace st') = http_log (trace st) @ (system_query c, out) # rest
           \<and> (observed_state E out = Some ''Off'' \<longrightarrow> r = Inr () \<and> rest = [])"
proof -
  obtain q st1 where g: "GetSystemPowerState E c (logf Info ''Powering off system...'' st) = (q, st1)"
    by (cases "GetSystemPowerState E c (logf Info ''Powering off system...'' st)") auto
  from GetSystemPowerState_http[OF g] obtain out where
    h: "http_log (trace st1) = http_log (trace st) @ [(system_query c, out)]"
    and obs: "case q of Inl e \<Rightarrow> observed_state E out = None
              | Inr powerState \<Rightarrow> observed_state E out = Some powerState"
    by auto
  show ?thesis
  proof (cases "observed_state E out = Some ''Off''")
    case True
    with obs have "q = Inr ''Off''" by (cases q) auto
    with assms g have "r = Inr ()" and "st' = logf Info ''System is already powered off'' st1"
      by (simp_all add: PowerOffSystem_def)
    with h True show ?thesis by simp
  next
    case False
    have "\<exists>rest. http_log (trace st') = http_log (trace st1) @ rest"
      using assms g False obs
      by (auto simp: PowerOffSystem_def split: sum.splits prod.splits response.splits if_splits
               dest!: makeRequest_http WaitForSystemPowerOff_http)
    with h False show ?thesis by auto
  qed
qed

lemma resets_system_query [simp]: "is_reset (system_query c, out) = False"
  by (simp add: system_query_def)

subsection \<open>The boot-media sequence\<close>

lemma request_distinct [simp]:
  "eject_request c \<noteq> system_query c" "insert_request c url \<noteq> system_query c"
  "media_query c \<noteq> system_query c" "boot_patch c t \<noteq> system_query c"
  "reset_request c t \<noteq> system_query c"
  by (simp_all add: eject_request_def system_query_def insert_request_def media_query_def
        boot_patch_def reset_request_def media_endpoint_def system_endpoint_def)






subsection \<open>Sleeps of the polling loop, and the check after the boot-media sequence\<close>





subsection \<open>The steps before the image is created\<close>

lemma image_events_Cons [simp]:
  "image_events cfg (e # tr) =
     (if e = Log Info ''Creating agent image...'' \<or> e = Exec (create_image_cmd cfg) True
         \<or> e = Exec (create_image_cmd cfg) False then [e] else []) @ image_events cfg tr"
  by (simp add: image_events_def)
















subsection \<open>Runs against the scripted controller, step by step\<close>

lemmas sim_defs =
  idrac_def NewClient_def makeRequest_def do_stat_def do_exec_def do_remove_all_def
  do_mkdir_all_def do_chmod_def do_setenv_def do_sleep_def emit_def logf_def scripted_def
  next_reply_def ok_reply_def test_config_def system_query_def Let_def

lemma sim_CheckConnectivity:
  assumes "world s = ok_reply ''System.Embedded.1'' # rest"
  shows "\<exists>s'. CheckConnectivity (scripted absent failing) (idrac test_config) s = (Inr (), s')
           \<and> world s' = rest
           \<and> map fst (http_log (trace s')) =
               map fst (http_log (trace s)) @ [system_query (idrac test_config)]
           \<and> warnings (trace s') = warnings (trace s)"
  using assms by (simp add: CheckConnectivity_def sim_defs)

lemma sim_GetSystemInfo:
  assumes "world s = ok_reply b # rest"
  shows "\<exists>si s'. GetSystemInfo (scripted absent failing) (idrac test_config) s = (Inr si, s')
           \<and> PowerState si = b \<and> world s' = rest
           \<and> map fst (http_log (trace s')) =
               map fst (http_log (trace s)) @ [system_query (idrac test_config)]
           \<and> warnings (trace s') = warnings (trace s)"
  using assms by (simp add: GetSystemInfo_def sim_defs)

lemma sim_GetSystemHealth:
  assumes "world s = ok_reply b # rest"
  shows "\<exists>h s'. GetSystemHealth (scripted absent failing) (idrac test_config) s = (Inr h, s')
           \<and> world s' = rest
           \<and> map fst (http_log (trace s')) =
               map fst (http_log (trace s)) @ [system_query (idrac test_config)]
           \<and> warnings (trace s') = warnings (trace s)"
  using assms by (simp add: GetSystemHealth_def GetSystemInfo_def sim_defs)

lemma sim_CheckSSHKey:
  assumes "absent = [] \<or> absent = [''./workdir/agent.x86_64.iso'']"
  shows "\<exists>s'. CheckSSHKey (scripted absent []) test_config s = (Inr (), s')
           \<and> world s' = world s \<and> http_log (trace s') = http_log (trace s)
           \<and> warnings (trace s') = warnings (trace s)"
  using assms by (auto simp: CheckSSHKey_def GetSSHKeyPrivatePath_def sim_defs)

lemma sim_SetupSSHKey:
  assumes "absent = [] \<or> absent = [''./workdir/agent.x86_64.iso'']"
  shows "\<exists>s'. SetupSSHKey (scripted absent []) test_config s = (Inr (), s')
           \<and> world s' = world s \<and> http_log (trace s') = http_log (trace s)
           \<and> warnings (trace s') = warnings (trace s)"
  using assms by (auto simp: SetupSSHKey_def sim_defs)

lemma sim_ExtractInstaller:
  assumes "absent = [] \<or> absent = [''./workdir/agent.x86_64.iso'']"
  shows "\<exists>s'. ExtractInstaller (scripted absent []) test_config s = (Inr (), s')
           \<and> world s' = world s \<and> http_log (trace s') = http_log (trace s)
           \<and> warnings (trace s') = warnings (trace s)"
  using assms
  by (auto simp: ExtractInstaller_def getReleaseDigest_def strings_Fields_def is_space_def sim_defs)

lemma sim_PrepareWorkDir:
  assumes "absent = [] \<or> absent = [''./workdir/agent.x86_64.iso'']"
  shows "\<exists>s'. PrepareWorkDir (scripted absent []) test_config s = (Inr (), s')
           \<and> world s' = world s \<and> http_log (trace s') = http_log (trace s)
           \<and> warnings (trace s') = warnings (trace s)"
  using assms
  by (auto simp: PrepareWorkDir_def cleanWorkDir_def copyOpenshiftDir_def copyConfigFiles_def
        configFiles_def sim_defs)

lemma sim_CreateAgentImage:
  assumes "absent = [] \<or> absent = [''./workdir/agent.x86_64.iso'']"
  shows "\<exists>s'. CreateAgentImage (scripted absent []) test_config s = (Inr (), s')
           \<and> world s' = world s \<and> http_log (trace s') = http_log (trace s)
           \<and> warnings (trace s') = warnings (trace s)"
  using assms by (auto simp: CreateAgentImage_def create_image_cmd_def sim_defs)

lemma sim_steps_before_transfer:
  assumes "absent = [] \<or> absent = [''./workdir/agent.x86_64.iso'']"
  shows "\<exists>s1 si s2 h s3 s4 s5 s6 s7 s8.
     CheckConnectivity (scripted absent []) (idrac test_config)
       (logf Info ''Starting OpenShift SNO Hub Installation with Enhanced iDRAC8 Management''
         (start (ok_reply ''System.Embedded.1'' # ok_reply ''On'' # ok_reply ''On'' # rest)))
       = (Inr (), s1)
   \<and> GetSystemInfo (scripted absent []) (idrac test_config) s1 = (Inr si, s2)
   \<and> GetSystemHealth (scripted absent []) (idrac test_config) s2 = (Inr h, s3)
   \<and> CheckSSHKey (scripted absent []) test_config s3 = (Inr (), s4)
   \<and> SetupSSHKey (scripted absent []) test_config s4 = (Inr (), s5)
   \<and> ExtractInstaller (scripted absent []) test_config s5 = (Inr (), s6)
   \<and> PrepareWorkDir (scripted absent []) test_config s6 = (Inr (), s7)
   \<and> CreateAgentImage (scripted absent []) test_config s7 = (Inr (), s8)
   \<and> world s8 = rest
   \<and> map fst (http_log (trace s8)) =
        [system_query (idrac test_config), system_query (idrac test_config),
         system_query (idrac test_config)]
   \<and> warnings (trace s8) = []"
proof -
  let ?E = "scripted absent []"
  let ?s0 = "logf Info ''Starting OpenShift SNO Hub Installation with Enhanced iDRAC8 Management''
         (start (ok_reply ''System.Embedded.1'' # ok_reply ''On'' # ok_reply ''On'' # rest))"
  have w0: "world ?s0 = ok_reply ''System.Embedded.1'' # ok_reply ''On'' # ok_reply ''On'' # rest"
    and t0: "http_log (trace ?s0) = []" "warnings (trace ?s0) = []"
    by (simp_all add: start_def)
  from sim_CheckConnectivity[OF w0, of absent "[]"] t0 obtain s1 where
    1: "CheckConnectivity ?E (idrac test_config) ?s0 = (Inr (), s1)"
       "world s1 = ok_reply ''On'' # ok_reply ''On'' # rest"
       "map fst (http_log (trace s1)) = [system_query (idrac test_config)]"
       "warnings (trace s1) = []"
    by auto
  from sim_GetSystemInfo[OF 1(2), of absent "[]"] 1(3,4) obtain si s2 where
    2: "GetSystemInfo ?E (idrac test_config) s1 = (Inr si, s2)"
       "world s2 = ok_reply ''On'' # rest"
       "map fst (http_log (trace s2)) = [system_query (idrac test_config), system_query (idrac test_config)]"
       "warnings (trace s2) = []"
    by auto
  from sim_GetSystemHealth[OF 2(2), of absent "[]"] 2(3,4) obtain h s3 where
    3: "GetSystemHealth ?E (idrac test_config) s2 = (Inr h, s3)"
       "world s3 = rest"
       "map fst (http_log (trace s3)) =
          [system_query (idrac test_config), system_query (idrac test_config),
           system_query (idrac test_config)]"
       "warnings (trace s3) = []"
    by auto
  from sim_CheckSSHKey[OF assms, of s3] 3(2-4) obtain s4 where
    4: "CheckSSHKey ?E test_config s3 = (Inr (), s4)" "world s4 = rest"
       "map fst (http_log (trace s4)) =
          [system_query (idrac test_config), system_query (idrac test_config),
           system_query (idrac test_config)]"
       "warnings (trace s4) = []"
    by auto
  from sim_SetupSSHKey[OF assms, of s4] 4(2-4) obtain s5 where
    5: "SetupSSHKey ?E test_config s4 = (Inr (), s5)" "world s5 = rest"
       "map fst (http_log (trace s5)) =
          [system_query (idrac test_config), system_query (idrac test_config),
           system_query (idrac test_config)]"
       "warnings (trace s5) = []"
    by auto
  from sim_ExtractInstaller[OF assms, of s5] 5(2-4) obtain s6 where
    6: "ExtractInstaller ?E test_config s5 = (Inr (), s6)" "world s6 = rest"
       "map fst (http_log (trace s6)) =
          [system_query (idrac test_config), system_query (idrac test_config),
           system_query (idrac test_config)]"
       "warnings (trace s6) = []"
    by auto
  from sim_PrepareWorkDir[OF assms, of s6] 6(2-4) obtain s7 where
    7: "PrepareWorkDir ?E test_config s6 = (Inr (), s7)" "world s7 = rest"
       "map fst (http_log (trace s7)) =
          [system_query (idrac test_config), system_query (idrac test_config),
           system_query (idrac test_config)]"
       "warnings (trace s7) = []"
    by auto
  from sim_CreateAgentImage[OF assms, of s7] 7(2-4) obtain s8 where
    8: "CreateAgentImage ?E test_config s7 = (Inr (), s8)" "world s8 = rest"
       "map fst (http_log (trace s8)) =
          [system_query (idrac test_config), system_query (idrac test_config),
           system_query (idrac test_config)]"
       "warnings (trace s8) = []"
    by auto
  show ?thesis
    by (rule exI[of _ s1], rule exI[of _ si], rule exI[of _ s2], rule exI[of _ h],
        rule exI[of _ s3], rule exI[of _ s4], rule exI[of _ s5], rule exI[of _ s6],
        rule exI[of _ s7], rule exI[of _ s8])
       (simp add: 1(1) 2(1) 3(1) 4(1) 5(1) 6(1) 7(1) 8)
qed

lemma sim_missing_iso:
  "\<exists>s'. CopyISOToRemote (scripted [''./workdir/agent.x86_64.iso''] []) test_config
            (GetISOFilePath (scripted [''./workdir/agent.x86_64.iso''] []) test_config) s
          = (Inl (Errorf ''ISO file not found: %s'' [''./workdir/agent.x86_64.iso'']), s')
        \<and> http_log (trace s') = http_log (trace s)
        \<and> warnings (trace s') = warnings (trace s) @ [''ISO file not found: %s'']"
  by (simp add: CopyISOToRemote_def GetISOFilePath_def sim_defs)

lemma sim_copy_iso:
  "\<exists>s'. CopyISOToRemote (scripted [] []) test_config (GetISOFilePath (scripted [] []) test_config) s
          = (Inr (), s')
        \<and> world s' = world s \<and> http_log (trace s') = http_log (trace s)"
  by (simp add: CopyISOToRemote_def CopyFileToRemote_def GetISOFilePath_def sim_defs)

lemma sim_restart_rejected:
  assumes "world s = ok_reply [] # ok_reply [] # ok_reply [] # ok_reply [] # Some (Response 500 None) # rest"
  shows "\<exists>s'. manageVirtualMediaBootProcess (scripted [] []) test_config (ISOURL test_config) s
          = (Inl (Wrapped ''failed to restart system''
                   (StatusCode ''failed to restart system, status code: %d'' 500)), s')
        \<and> map fst (http_log (trace s')) =
            map fst (http_log (trace s)) @
              [eject_request (idrac test_config),
               insert_request (idrac test_config) ''http://192.168.1.21:8080/OSs/agent.x86_64.iso'',
               media_query (idrac test_config), boot_patch (idrac test_config) ''RemoteCd'',
               reset_request (idrac test_config) ''ForceRestart'']"
  using assms
  by (simp add: manageVirtualMediaBootProcess_def ManageVirtualMediaBootProcess_def
        EjectVirtualMedia_def InsertVirtualMedia_def SetVirtualCDBootEnhanced_def
        GetVirtualMediaInfo_def virtualCDOptions_def RestartSystem_def sim_defs
        eject_request_def insert_request_def media_query_def boot_patch_def reset_request_def)

section \<open>The boot-target fallback\<close>

text \<open>
  C1. Every run of \<open>SetVirtualCDBootEnhanced\<close> asks for the virtual media state once and
  then sends PATCH requests for the boot targets "RemoteCd", "VirtualCd", "Cd" in this
  order, one request for each target it tries and at most three. Every attempt before
  the last one failed; the run returns success exactly when the last attempt was answered
  with status 200, so nothing is tried after the first success; and when it does not
  return success, all three targets were tried, all failed, and the error is returned.
\<close>

theorem SetVirtualCDBootEnhanced_first_success_wins:
  assumes "SetVirtualCDBootEnhanced E c st = (r, st')"
  shows "\<exists>q outs.
           http_log (trace st') =
             http_log (trace st) @
               (media_query c, q) # zip (map (boot_patch c) [''RemoteCd'', ''VirtualCd'', ''Cd'']) outs
         \<and> 1 \<le> length outs \<and> length outs \<le> 3
         \<and> (\<forall>out \<in> set (butlast outs). \<not> attempt_ok out)
         \<and> (r = Inr () \<longleftrightarrow> attempt_ok (last outs))
         \<and> (r \<noteq> Inr () \<longrightarrow>
               length outs = 3 \<and>
               r = Inl (Msg ''failed to set boot device to Virtual CD/DVD with any supported option''))"
proof -
  from SetVirtualCDBootEnhanced_http[OF assms] obtain q outs where
    h: "http_log (trace st') =
          http_log (trace st) @ (media_query c, q) # zip (map (boot_patch c) virtualCDOptions) outs"
       "length outs \<le> 3"
       "\<forall>out \<in> set (butlast outs). \<not> attempt_ok out"
       "r = Inr () \<longrightarrow> outs \<noteq> [] \<and> attempt_ok (last outs)"
       "r \<noteq> Inr () \<longrightarrow> length outs = 3 \<and> (\<forall>out \<in> set outs. \<not> attempt_ok out)
              \<and> r = Inl (Msg ''failed to set boot device to Virtual CD/DVD with any supported option'')"
    by blast
  have nonempty: "outs \<noteq> []"
    using h(4,5) by (cases "r = Inr ()") auto
  have iff: "r = Inr () \<longleftrightarrow> attempt_ok (last outs)"
    using h(4,5) nonempty by (cases "r = Inr ()") auto
  from nonempty have "1 \<le> length outs"
    by (cases outs) auto
  with h iff show ?thesis
    unfolding virtualCDOptions_def by blast
qed

theorem SetVirtualCDBootEnhanced_first_success_wins_witness:
  "\<exists>q outs.
     http_log (trace (snd (SetVirtualCDBootEnhanced (scripted [] []) test_client
        (start [ok_reply ''x'', Some (Response 400 None), ok_reply []])))) =
       (media_query test_client, q) #
         zip (map (boot_patch test_client) [''RemoteCd'', ''VirtualCd'', ''Cd'']) outs
     \<and> length outs = 2
     \<and> fst (SetVirtualCDBootEnhanced (scripted [] []) test_client
          (start [ok_reply ''x'', Some (Response 400 None), ok_reply []])) = Inr ()"
proof -
  let ?run = "SetVirtualCDBootEnhanced (scripted [] []) test_client
                (start [ok_reply ''x'', Some (Response 400 None), ok_reply []])"
  have run: "?run = (fst ?run, snd ?run)" by simp
  have res: "fst ?run = Inr ()" by code_simp
  have len: "length (http_log (trace (snd ?run))) = 3" by code_simp
  have emp: "http_log (trace (start [ok_reply ''x'', Some (Response 400 None), ok_reply []])) = []"
    by (simp add: start_def)
  from SetVirtualCDBootEnhanced_first_success_wins[OF run] obtain q outs where
    h: "http_log (trace (snd ?run)) =
          http_log (trace (start [ok_reply ''x'', Some (Response 400 None), ok_reply []])) @
            (media_query test_client, q) #
              zip (map (boot_patch test_client) [''RemoteCd'', ''VirtualCd'', ''Cd'']) outs"
       "length outs \<le> 3"
    by blast
  from h len emp have "length outs = 2" by auto
  with h emp res show ?thesis by auto
qed

section \<open>Power commands\<close>

text \<open>
  C5. \<open>PowerOnSystem\<close> and \<open>PowerOffSystem\<close> begin with a query of the power state:
  it is the first request of every invocation. When that query shows the state the
  operation is meant to reach ("On" for power-on, "Off" for power-off), the operation
  returns success, the query is its only request, and no reset command is issued.
\<close>

theorem power_command_skipped_when_state_already_reached:
  assumes "op = PowerOnSystem \<and> target = ''On'' \<or> op = PowerOffSystem \<and> target = ''Off''"
    and "op E c st = (r, st')"
  shows "\<exists>out rest.
           http_log (trace st') = http_log (trace st) @ (system_query c, out) # rest
         \<and> (observed_state E out = Some target \<longrightarrow>
               r = Inr () \<and> rest = [] \<and> resets (trace st') = resets (trace st))"
proof -
  from assms PowerOnSystem_http[of E c st r st'] PowerOffSystem_http[of E c st r st']
  obtain out rest where
    h: "http_log (trace st') = http_log (trace st) @ (system_query c, out) # rest"
       "observed_state E out = Some target \<longrightarrow> r = Inr () \<and> rest = []"
    by blast
  then have "observed_state E out = Some target \<longrightarrow> resets (trace st') = resets (trace st)"
    by (simp add: resets_def)
  with h show ?thesis by blast
qed

theorem power_command_skipped_when_state_already_reached_witness:
  "fst (PowerOnSystem (scripted [] []) test_client (start [ok_reply ''On''])) = Inr ()
   \<and> resets (trace (snd (PowerOnSystem (scripted [] []) test_client (start [ok_reply ''On''])))) = []
   \<and> length (http_log (trace (snd (PowerOnSystem (scripted [] []) test_client (start [ok_reply ''On'']))))) = 1"
proof -
  let ?run = "PowerOnSystem (scripted [] []) test_client (start [ok_reply ''On''])"
  have run: "?run = (fst ?run, snd ?run)" by simp
  have pre: "PowerOnSystem = PowerOnSystem \<and> ''On'' = ''On''
               \<or> PowerOnSystem = PowerOffSystem \<and> ''On'' = ''Off''"
    by simp
  have emp: "trace (start [ok_reply ''On'']) = []" by (simp add: start_def)
  have one: "map snd (http_log (trace (snd ?run))) = [Inr (Response 200 (Some ''On''))]"
    by code_simp
  from power_command_skipped_when_state_already_reached[OF pre run] obtain out rest where
    h: "http_log (trace (snd ?run)) = http_log (trace (start [ok_reply ''On''])) @ (system_query test_client, out) # rest"
       "observed_state (scripted [] []) out = Some ''On'' \<longrightarrow>
               fst ?run = Inr () \<and> rest = [] \<and> resets (trace (snd ?run)) = resets (trace (start [ok_reply ''On'']))"
    by blast
  from h(1) one emp have "out = Inr (Response 200 (Some ''On''))" by auto
  then have "observed_state (scripted [] []) out = Some ''On''"
    by (simp add: scripted_def)
  with h emp show ?thesis by (simp add: resets_def)
qed

section \<open>Waiting for a power state\<close>



section \<open>Eject and insert in the boot-media sequence\<close>



section \<open>After the restart\<close>




section \<open>Staging the workspace\<close>



section \<open>Cleanup after a failed run\<close>

text \<open>
  C3 asks for the cleanup (eject, boot target back to "Hdd") to be attempted also when an
  earlier step failed. \<open>runInstall\<close> returns at the first failing step instead. Here
  the controller accepts eject, insert and the boot target and then rejects the restart
  (status 500): the run returns the restart error, and its requests end with the rejected
  restart. No eject and no "Hdd" boot target follow, although the image is inserted and
  the boot override is set.
\<close>

theorem failed_run_is_not_cleaned_up:
  "fst (runInstall (scripted [] []) test_config
          (start [ok_reply ''System.Embedded.1'', ok_reply ''On'', ok_reply ''On'', ok_reply [],
                  ok_reply [], ok_reply [], ok_reply [], Some (Response 500 None),
                  ok_reply [], ok_reply []]))
     = Inl (Wrapped ''failed to manage virtual media boot process''
             (Wrapped ''failed to restart system''
               (StatusCode ''failed to restart system, status code: %d'' 500)))
   \<and> map fst (http_log (trace (snd (runInstall (scripted [] []) test_config
          (start [ok_reply ''System.Embedded.1'', ok_reply ''On'', ok_reply ''On'', ok_reply [],
                  ok_reply [], ok_reply [], ok_reply [], Some (Response 500 None),
                  ok_reply [], ok_reply []])))))
     = [system_query (idrac test_config), system_query (idrac test_config),
        system_query (idrac test_config), eject_request (idrac test_config),
        insert_request (idrac test_config) ''http://192.168.1.21:8080/OSs/agent.x86_64.iso'',
        media_query (idrac test_config), boot_patch (idrac test_config) ''RemoteCd'',
        reset_request (idrac test_config) ''ForceRestart'']"
proof -
  let ?E = "scripted [] []"
  let ?rest = "[ok_reply [], ok_reply [], ok_reply [], ok_reply [], Some (Response 500 None),
                ok_reply [], ok_reply []]"
  from sim_steps_before_transfer[of "[]" ?rest]
  obtain s1 si s2 h s3 s4 s5 s6 s7 s8 where
    steps: "CheckConnectivity ?E (idrac test_config)
       (logf Info ''Starting OpenShift SNO Hub Installation with Enhanced iDRAC8 Management''
         (start (ok_reply ''System.Embedded.1'' # ok_reply ''On'' # ok_reply ''On'' # ?rest)))
       = (Inr (), s1)"
     "GetSystemInfo ?E (idrac test_config) s1 = (Inr si, s2)"
     "GetSystemHealth ?E (idrac test_config) s2 = (Inr h, s3)"
     "CheckSSHKey ?E test_config s3 = (Inr (), s4)"
     "SetupSSHKey ?E test_config s4 = (Inr (), s5)"
     "ExtractInstaller ?E test_config s5 = (Inr (), s6)"
     "PrepareWorkDir ?E test_config s6 = (Inr (), s7)"
     "CreateAgentImage ?E test_config s7 = (Inr (), s8)"
    and s8: "world s8 = ?rest"
     "map fst (http_log (trace s8)) =
        [system_query (idrac test_config), system_query (idrac test_config),
         system_query (idrac test_config)]"
    by auto
  from sim_copy_iso[of s8] s8 obtain s9 where
    s9: "CopyISOToRemote ?E test_config (GetISOFilePath ?E test_config) s8 = (Inr (), s9)"
        "world s9 = ?rest"
        "map fst (http_log (trace s9)) =
          [system_query (idrac test_config), system_query (idrac test_config),
           system_query (idrac test_config)]"
    by auto
  from sim_restart_rejected[OF s9(2)] s9(3) obtain s10 where
    s10: "manageVirtualMediaBootProcess ?E test_config (ISOURL test_config) s9
          = (Inl (Wrapped ''failed to restart system''
                   (StatusCode ''failed to restart system, status code: %d'' 500)), s10)"
         "map fst (http_log (trace s10)) =
            [system_query (idrac test_config), system_query (idrac test_config),
             system_query (idrac test_config), eject_request (idrac test_config),
             insert_request (idrac test_config) ''http://192.168.1.21:8080/OSs/agent.x86_64.iso'',
             media_query (idrac test_config), boot_patch (idrac test_config) ''RemoteCd'',
             reset_request (idrac test_config) ''ForceRestart'']"
    by auto
  have "runInstall ?E test_config
          (start (ok_reply ''System.Embedded.1'' # ok_reply ''On'' # ok_reply ''On'' # ?rest))
        = (Inl (Wrapped ''failed to manage virtual media boot process''
             (Wrapped ''failed to restart system''
               (StatusCode ''failed to restart system, status code: %d'' 500))), s10)"
    by (simp add: runInstall_def steps s9(1) s10(1))
  with s10(2) show ?thesis by simp
qed

text \<open>When it does run, \<open>cleanup\<close> returns no error, whatever its requests return, so
  it cannot change the result of a run.\<close>

lemma cleanup_returns_no_error: "fst (cleanup E cfg powerOff st) = Inr ()"
  by (simp add: cleanup_def Let_def)

section \<open>A missing image at transfer time\<close>

text \<open>
  C4 asks for a run that goes on after a warning when the image is missing at transfer
  time. \<open>CopyISOToRemote\<close> logs the warning and returns an error, and \<open>runInstall\<close>
  returns it. Here every step up to the creation of the image succeeds and the image file
  is absent: the run ends with "failed to copy ISO to remote", the warning is its only
  warning, and no request of the boot-media sequence is made.
\<close>

theorem missing_iso_aborts_the_run:
  "fst (runInstall (scripted [''./workdir/agent.x86_64.iso''] []) test_config
          (start [ok_reply ''System.Embedded.1'', ok_reply ''On'', ok_reply ''On'', ok_reply [],
                  ok_reply [], ok_reply [], ok_reply [], ok_reply []]))
     = Inl (Wrapped ''failed to copy ISO to remote''
             (Errorf ''ISO file not found: %s'' [''./workdir/agent.x86_64.iso'']))
   \<and> warnings (trace (snd (runInstall (scripted [''./workdir/agent.x86_64.iso''] []) test_config
          (start [ok_reply ''System.Embedded.1'', ok_reply ''On'', ok_reply ''On'', ok_reply [],
                  ok_reply [], ok_reply [], ok_reply [], ok_reply []]))))
     = [''ISO file not found: %s'']
   \<and> map fst (http_log (trace (snd (runInstall (scripted [''./workdir/agent.x86_64.iso''] [])
          test_config
          (start [ok_reply ''System.Embedded.1'', ok_reply ''On'', ok_reply ''On'', ok_reply [],
                  ok_reply [], ok_reply [], ok_reply [], ok_reply []])))))
     = [system_query (idrac test_config), system_query (idrac test_config),
        system_query (idrac test_config)]"
proof -
  let ?E = "scripted [''./workdir/agent.x86_64.iso''] []"
  let ?rest = "[ok_reply [], ok_reply [], ok_reply [], ok_reply [], ok_reply []]"
  from sim_steps_before_transfer[of "[''./workdir/agent.x86_64.iso'']" ?rest]
  obtain s1 si s2 h s3 s4 s5 s6 s7 s8 where
    steps: "CheckConnectivity ?E (idrac test_config)
       (logf Info ''Starting OpenShift SNO Hub Installation with Enhanced iDRAC8 Management''
         (start (ok_reply ''System.Embedded.1'' # ok_reply ''On'' # ok_reply ''On'' # ?rest)))
       = (Inr (), s1)"
     "GetSystemInfo ?E (idrac test_config) s1 = (Inr si, s2)"
     "GetSystemHealth ?E (idrac test_config) s2 = (Inr h, s3)"
     "CheckSSHKey ?E test_config s3 = (Inr (), s4)"
     "SetupSSHKey ?E test_config s4 = (Inr (), s5)"
     "ExtractInstaller ?E test_config s5 = (Inr (), s6)"
     "PrepareWorkDir ?E test_config s6 = (Inr (), s7)"
     "CreateAgentImage ?E test_config s7 = (Inr (), s8)"
    and s8: "map fst (http_log (trace s8)) =
        [system_query (idrac test_config), system_query (idrac test_config),
         system_query (idrac test_config)]"
      "warnings (trace s8) = []"
    by auto
  from sim_missing_iso[of s8] s8 obtain s9 where
    s9: "CopyISOToRemote ?E test_config (GetISOFilePath ?E test_config) s8
          = (Inl (Errorf ''ISO file not found: %s'' [''./workdir/agent.x86_64.iso'']), s9)"
        "map fst (http_log (trace s9)) =
          [system_query (idrac test_config), system_query (idrac test_config),
           system_query (idrac test_config)]"
        "warnings (trace s9) = [''ISO file not found: %s'']"
    by auto
  have "runInstall ?E test_config
          (start (ok_reply ''System.Embedded.1'' # ok_reply ''On'' # ok_reply ''On'' # ?rest))
        = (Inl (Wrapped ''failed to copy ISO to remote''
             (Errorf ''ISO file not found: %s'' [''./workdir/agent.x86_64.iso''])), s9)"
    by (simp add: runInstall_def steps s9(1))
  with s9(2,3) show ?thesis by simp
qed

section \<open>The file server\<close>

lemma start_server_etag:
  assumes "start_server L fs0 path = Inr srv"
  shows "\<exists>content. fs0 path = Some (File (Some content) (Some (modTime srv)))
           \<and> etag srv = [CHR 0x22] @ hex (md5_sum L content) @ [CHR 0x22]
           \<and> inputPath srv = path"
  using assms
  by (auto simp: start_server_def calculateETag_def
           split: option.splits disk_file.splits sum.splits prod.splits)

text \<open>
  C9. Let the server have started on a file. Its ETag is the digest of the content the
  file had then, in hexadecimal between double quotes, so it is never empty. A request
  whose \<open>If-None-Match\<close> header equals this ETag is answered with status 304, no header
  and an empty body, and the file is not opened. For any other request, when the file can
  be opened, the answer is what \<open>http.ServeContent\<close> makes of the headers the handler has
  set, and among these \<open>ETag\<close> is that same value and \<open>Last-Modified\<close> is the
  modification time read at startup.
\<close>

theorem matching_etag_gets_not_modified:
  assumes "start_server L fs0 path = Inr srv"
    and "header_Get (req_headers r) ''If-None-Match'' = etag srv"
    and "header_Get (req_headers r') ''If-None-Match'' \<noteq> etag srv"
    and "fs (inputPath srv) = Some f"
  shows "handler L srv fs r = (\<lparr>resp_status = 304, resp_headers = Map.empty, resp_body = []\<rparr>, [])
       \<and> (\<exists>content. fs0 path = Some (File (Some content) (Some (modTime srv)))
             \<and> etag srv = [CHR 0x22] @ hex (md5_sum L content) @ [CHR 0x22])
       \<and> (\<exists>H. fst (handler L srv fs r') = serve_content L H r' ''agent.x86_64.iso'' (modTime srv) f
             \<and> H ''ETag'' = Some (etag srv)
             \<and> H ''Last-Modified'' = Some (time_format L (modTime srv)))"
proof -
  from start_server_etag[OF assms(1)] obtain content where
    c: "fs0 path = Some (File (Some content) (Some (modTime srv)))"
       "etag srv = [CHR 0x22] @ hex (md5_sum L content) @ [CHR 0x22]"
    by blast
  then have ne: "etag srv \<noteq> []" by simp
  with assms(2) have a: "handler L srv fs r =
      (\<lparr>resp_status = 304, resp_headers = Map.empty, resp_body = []\<rparr>, [])"
    by (simp add: handler_def)
  have b: "fst (handler L srv fs r') =
             serve_content L (full_headers L srv) r' ''agent.x86_64.iso'' (modTime srv) f"
    using assms(3,4) by (simp add: handler_def Let_def)
  have h: "full_headers L srv ''ETag'' = Some (etag srv)"
          "full_headers L srv ''Last-Modified'' = Some (time_format L (modTime srv))"
    by (simp_all add: full_headers_def)
  from a b c h show ?thesis by blast
qed

lemma hello_server_started:
  "start_server test_library (test_fs ''hello'') ''/srv/agent.x86_64.iso'' = Inr hello_server"
  by (simp add: start_server_def calculateETag_def test_library_def test_fs_def hello_server_def
        hex_def hex_byte_def hex_digit_def)

theorem matching_etag_gets_not_modified_witness:
  "resp_status (fst (handler test_library hello_server (test_fs ''hello'') hello_request)) = 304
   \<and> resp_body (fst (handler test_library hello_server (test_fs ''hello'') hello_request)) = []
   \<and> (\<exists>H. fst (handler test_library hello_server (test_fs ''hello'') plain_request) =
             serve_content test_library H plain_request ''agent.x86_64.iso'' 1700000000
               (File (Some ''hello'') (Some 1700000000))
           \<and> H ''ETag'' = Some ([CHR 0x22] @ ''68656c6c6f'' @ [CHR 0x22]))"
proof -
  have hit: "header_Get (req_headers hello_request) ''If-None-Match'' = etag hello_server"
    by (simp add: header_Get_def hello_request_def hello_server_def)
  have miss: "header_Get (req_headers plain_request) ''If-None-Match'' \<noteq> etag hello_server"
    by (simp add: header_Get_def plain_request_def hello_server_def)
  have present: "test_fs ''hello'' (inputPath hello_server) = Some (File (Some ''hello'') (Some 1700000000))"
    by (simp add: test_fs_def hello_server_def)
  from matching_etag_gets_not_modified[where fs = "test_fs ''hello''", OF hello_server_started hit miss present]
  show ?thesis by (auto simp: hello_server_def)
qed

text \<open>
  C10. The ETag is computed once, when the server starts, from the content the file has
  then. Whatever the file system holds when a request arrives: a request that carries the
  startup ETag gets 304 and the file is not opened; the file is left unopened exactly for
  the requests that carry the startup ETag; and a full response is given the startup ETag
  as its \<open>ETag\<close> header, also when the file has changed since.
\<close>

theorem etag_is_fixed_at_startup:
  assumes "start_server L fs0 path = Inr srv"
    and "fs0 path = Some (File (Some content0) mtime0)"
    and "header_Get (req_headers r) ''If-None-Match'' = [CHR 0x22] @ hex (md5_sum L content0) @ [CHR 0x22]"
  shows "(\<forall>fs. handler L srv fs r =
               (\<lparr>resp_status = 304, resp_headers = Map.empty, resp_body = []\<rparr>, []))
       \<and> (\<forall>fs r'. snd (handler L srv fs r') = [] \<longleftrightarrow>
               header_Get (req_headers r') ''If-None-Match''
                 = [CHR 0x22] @ hex (md5_sum L content0) @ [CHR 0x22])
       \<and> (\<forall>fs r' f. snd (handler L srv fs r') \<noteq> [] \<and> fs (inputPath srv) = Some f \<longrightarrow>
               (\<exists>H. fst (handler L srv fs r') =
                       serve_content L H r' ''agent.x86_64.iso'' (modTime srv) f
                  \<and> H ''ETag'' = Some ([CHR 0x22] @ hex (md5_sum L content0) @ [CHR 0x22])))"
proof -
  from start_server_etag[OF assms(1)] assms(2)
  have e: "etag srv = [CHR 0x22] @ hex (md5_sum L content0) @ [CHR 0x22]"
    by auto
  then have ne: "etag srv \<noteq> []" by simp
  have a: "\<forall>fs. handler L srv fs r =
               (\<lparr>resp_status = 304, resp_headers = Map.empty, resp_body = []\<rparr>, [])"
    using assms(3) e by (simp add: handler_def)
  have b: "\<forall>fs r'. snd (handler L srv fs r') = [] \<longleftrightarrow>
               header_Get (req_headers r') ''If-None-Match'' = etag srv"
    using ne by (auto simp: handler_def Let_def split: option.splits)
  have c: "\<forall>fs r' f. snd (handler L srv fs r') \<noteq> [] \<and> fs (inputPath srv) = Some f \<longrightarrow>
               (\<exists>H. fst (handler L srv fs r') =
                       serve_content L H r' ''agent.x86_64.iso'' (modTime srv) f
                  \<and> H ''ETag'' = Some (etag srv))"
  proof (intro allI impI)
    fix fs r' f
    assume x: "snd (handler L srv fs r') \<noteq> [] \<and> fs (inputPath srv) = Some f"
    then have "fst (handler L srv fs r') =
                 serve_content L (full_headers L srv) r' ''agent.x86_64.iso'' (modTime srv) f"
      by (auto simp: handler_def Let_def split: if_splits)
    moreover have "full_headers L srv ''ETag'' = Some (etag srv)"
      by (simp add: full_headers_def)
    ultimately show "\<exists>H. fst (handler L srv fs r') =
                       serve_content L H r' ''agent.x86_64.iso'' (modTime srv) f
                  \<and> H ''ETag'' = Some (etag srv)"
      by blast
  qed
  from a b c show ?thesis unfolding e by blast
qed

theorem etag_is_fixed_at_startup_witness:
  "handler test_library hello_server (test_fs ''changed'') hello_request =
     (\<lparr>resp_status = 304, resp_headers = Map.empty, resp_body = []\<rparr>, [])
   \<and> (\<exists>H. fst (handler test_library hello_server (test_fs ''changed'') plain_request) =
             serve_content test_library H plain_request ''agent.x86_64.iso'' 1700000000
               (File (Some ''changed'') (Some 1700000000))
           \<and> H ''ETag'' = Some ([CHR 0x22] @ ''68656c6c6f'' @ [CHR 0x22]))"
proof -
  have f0: "test_fs ''hello'' ''/srv/agent.x86_64.iso'' = Some (File (Some ''hello'') (Some 1700000000))"
    by (simp add: test_fs_def)
  have hx: "hex (md5_sum test_library ''hello'') = ''68656c6c6f''"
    by (simp add: test_library_def hex_def hex_byte_def hex_digit_def)
  have hit: "header_Get (req_headers hello_request) ''If-None-Match''
               = [CHR 0x22] @ hex (md5_sum test_library ''hello'') @ [CHR 0x22]"
    by (simp add: header_Get_def hello_request_def hx)
  have opened: "snd (handler test_library hello_server (test_fs ''changed'') plain_request) \<noteq> []"
    by (simp add: handler_def header_Get_def plain_request_def hello_server_def test_fs_def)
  have present: "test_fs ''changed'' (inputPath hello_server)
                   = Some (File (Some ''changed'') (Some 1700000000))"
    by (simp add: test_fs_def hello_server_def)
  from etag_is_fixed_at_startup[OF hello_server_started f0 hit] opened present hx
  show ?thesis by (auto simp: hello_server_def)
qed

end
